theory Spec2Isabelle
  imports Complex_Main
begin

section \<open>Python values and exceptions\<close>

text \<open>
  The programs are Python scripts that drive Microsoft Publisher through COM.
  An exception is modelled by its class, the text that \<open>str(e)\<close> gives, and its
  \<open>excepinfo\<close> attribute. \<open>hasattr(e, 'excepinfo')\<close> is \<open>excepinfo e \<noteq> NoAttr\<close>.
  A COM error carries either \<open>None\<close> or a tuple there; an element of the tuple is
  \<open>None\<close>, an integer, or some other object known by its \<open>repr\<close> (which is never
  equal to an integer).
\<close>

datatype exn_kind =
  FileNotFoundError | ValueError | RuntimeError | TypeError | AttributeError | OSError
  | com_error | OtherException

datatype pyval = PyNone | PyInt int | PyObj string

datatype info = InfoNone | InfoTuple "pyval list"

datatype excepinfo_attr = NoAttr | Attr info

datatype pyexn = PyExn (exn_kind: exn_kind) (exn_str: string) (excepinfo: excepinfo_attr)

text \<open>\<open>raise K(msg)\<close> for a builtin exception class: no \<open>excepinfo\<close> attribute.\<close>

definition raise_exn :: "exn_kind \<Rightarrow> string \<Rightarrow> pyexn" where
  "raise_exn k msg = PyExn k msg NoAttr"

section \<open>The filesystem\<close>

text \<open>
  A filesystem is a tree; a path is a string, read as its components between the
  separators, backslash and slash (a drive such as \<open>C:\<close> is the first component).
  \<open>os.path.exists\<close>, \<open>os.path.isdir\<close>, \<open>os.listdir\<close> and \<open>os.makedirs\<close> are
  the library functions of those names on this tree. Permissions and symbolic links are
  not modelled.
\<close>

datatype node = File | Dir "(string \<times> node) list"

definition is_sep :: "char \<Rightarrow> bool" where
  "is_sep c = (c = CHR 0x5C \<or> c = CHR ''/'')"

fun split_path :: "string \<Rightarrow> string \<Rightarrow> string list" where
  "split_path cur [] = (if cur = [] then [] else [cur])"
| "split_path cur (c # cs) =
     (if is_sep c then (if cur = [] then [] else [cur]) @ split_path [] cs
      else split_path (cur @ [c]) cs)"

definition components :: "string \<Rightarrow> string list" where
  "components p = split_path [] p"

fun lookup :: "node \<Rightarrow> string list \<Rightarrow> node option" where
  "lookup n [] = Some n"
| "lookup File (c # cs) = None"
| "lookup (Dir es) (c # cs) = (case map_of es c of None \<Rightarrow> None | Some n \<Rightarrow> lookup n cs)"

definition os_path_exists :: "node \<Rightarrow> string \<Rightarrow> bool" where
  "os_path_exists t p = (lookup t (components p) \<noteq> None)"

definition os_path_isdir :: "node \<Rightarrow> string \<Rightarrow> bool" where
  "os_path_isdir t p = (case lookup t (components p) of Some (Dir es) \<Rightarrow> True | _ \<Rightarrow> False)"

definition os_listdir :: "node \<Rightarrow> string \<Rightarrow> pyexn + string list" where
  "os_listdir t p =
     (case lookup t (components p) of
        Some (Dir es) \<Rightarrow> Inr (map fst es)
      | Some File \<Rightarrow> Inl (raise_exn OSError (''The directory name is invalid: '' @ p))
      | None \<Rightarrow> Inl (raise_exn FileNotFoundError (''The system cannot find the path specified: '' @ p)))"

text \<open>
  \<open>os.makedirs(p, exist_ok=True)\<close>: every missing directory on the way is created; the
  call fails when the path, or a directory on the way to it, is there as a file.
\<close>

fun new_dirs :: "string list \<Rightarrow> node" where
  "new_dirs [] = Dir []"
| "new_dirs (c # cs) = Dir [(c, new_dirs cs)]"

fun update_entry :: "string \<Rightarrow> node \<Rightarrow> (string \<times> node) list \<Rightarrow> (string \<times> node) list" where
  "update_entry c n [] = [(c, n)]"
| "update_entry c n ((k, v) # es) = (if k = c then (c, n) # es else (k, v) # update_entry c n es)"

fun mkdirs :: "node \<Rightarrow> string list \<Rightarrow> node option" where
  "mkdirs (Dir es) [] = Some (Dir es)"
| "mkdirs File [] = None"
| "mkdirs File (c # cs) = None"
| "mkdirs (Dir es) (c # cs) =
     (case map_of es c of
        None \<Rightarrow> Some (Dir (es @ [(c, new_dirs cs)]))
      | Some n \<Rightarrow> (case mkdirs n cs of
                     None \<Rightarrow> None
                   | Some n' \<Rightarrow> Some (Dir (update_entry c n' es))))"

definition os_makedirs :: "node \<Rightarrow> string \<Rightarrow> pyexn + node" where
  "os_makedirs t p =
     (case mkdirs t (components p) of
        None \<Rightarrow> Inl (raise_exn OSError (''Cannot create a file when that file already exists: '' @ p))
      | Some t' \<Rightarrow> Inr t')"

section \<open>Strings and path names\<close>

text \<open>
  \<open>str.lower\<close> and \<open>str.upper\<close> on the ASCII letters, \<open>str.endswith\<close>, the substring
  test \<open>in\<close>, and \<open>str\<close> of an integer. \<open>os.path.basename\<close> is the text after the
  last separator; \<open>os.path.splitext(name)[0]\<close>, for a name without separator, cuts at
  the last dot unless only dots come before it; \<open>os.path.join(d, name)\<close>, for such a
  name, puts a backslash between the two unless \<open>d\<close> ends with a separator.
\<close>

definition lower_char :: "char \<Rightarrow> char" where
  "lower_char c =
     (if (65::nat) \<le> of_char c \<and> of_char c \<le> (90::nat) then char_of (of_char c + (32::nat)) else c)"

definition upper_char :: "char \<Rightarrow> char" where
  "upper_char c =
     (if (97::nat) \<le> of_char c \<and> of_char c \<le> (122::nat) then char_of (of_char c - (32::nat)) else c)"

definition lower :: "string \<Rightarrow> string" where
  "lower s = map lower_char s"

definition upper :: "string \<Rightarrow> string" where
  "upper s = map upper_char s"

definition endswith :: "string \<Rightarrow> string \<Rightarrow> bool" where
  "endswith s suffix = (length suffix \<le> length s \<and> drop (length s - length suffix) s = suffix)"

fun contains :: "string \<Rightarrow> string \<Rightarrow> bool" where
  "contains [] sub = (sub = [])"
| "contains (c # cs) sub = (take (length sub) (c # cs) = sub \<or> contains cs sub)"

function str_nat :: "nat \<Rightarrow> string" where
  "str_nat n = (if n < 10 then [char_of (48 + n)] else str_nat (n div 10) @ [char_of (48 + n mod 10)])"
  by pat_completeness auto
termination
  by (relation "measure id") auto

declare str_nat.simps [simp del]

definition str_int :: "int \<Rightarrow> string" where
  "str_int i = (if i < 0 then CHR ''-'' # str_nat (nat (- i)) else str_nat (nat i))"

definition basename :: "string \<Rightarrow> string" where
  "basename p = rev (takeWhile (\<lambda>c. \<not> is_sep c) (rev p))"

definition splitext_root :: "string \<Rightarrow> string" where
  "splitext_root name =
     (if CHR ''.'' \<notin> set name then name
      else
        let root = take (length name - length (takeWhile (\<lambda>c. c \<noteq> CHR ''.'') (rev name)) - 1) name
        in if \<exists>c \<in> set root. c \<noteq> CHR ''.'' then root else name)"

definition os_path_join :: "string \<Rightarrow> string \<Rightarrow> string" where
  "os_path_join d name = (if d = [] \<or> is_sep (last d) then d @ name else d @ CHR 0x5C # name)"

text \<open>\<open>str\<close> of an \<open>excepinfo\<close> value: \<open>None\<close>, or the tuple of the \<open>repr\<close>s.\<close>

fun repr :: "pyval \<Rightarrow> string" where
  "repr PyNone = ''None''"
| "repr (PyInt i) = str_int i"
| "repr (PyObj r) = r"

fun intercalate :: "string \<Rightarrow> string list \<Rightarrow> string" where
  "intercalate s [] = []"
| "intercalate s [x] = x"
| "intercalate s (x # y # zs) = x @ s @ intercalate s (y # zs)"

fun str_info :: "info \<Rightarrow> string" where
  "str_info InfoNone = ''None''"
| "str_info (InfoTuple vs) =
     ''('' @ intercalate '', '' (map repr vs) @ (if length vs = 1 then '','' else []) @ '')''"

section \<open>The state of a run\<close>

text \<open>
  A run acts on the filesystem \<open>fs\<close> and on the external application and process table,
  whose state \<open>app\<close> is opaque. It leaves three traces: the calls made to the application
  (\<open>automation\<close>), the calls that walk or create directories (\<open>oslog\<close>), and the lines
  written to the two output streams. Writing a line to a stream never fails.
\<close>

datatype com_call =
  EnsureDispatch_call | AutomationSecurity_call int | Open_call string | SaveAs_call string int
  | Close_call | Quit_call | kill_call nat

datatype os_call = walk_call string | makedirs_call string

record 'a world =
  fs :: node
  app :: 'a
  automation :: "com_call list"
  oslog :: "os_call list"
  stdout :: "string list"
  stderr :: "string list"

definition print :: "string \<Rightarrow> 'a world \<Rightarrow> 'a world" where
  "print s w = w\<lparr>stdout := stdout w @ [s]\<rparr>"

definition print_err :: "string \<Rightarrow> 'a world \<Rightarrow> 'a world" where
  "print_err s w = w\<lparr>stderr := stderr w @ [s]\<rparr>"

section \<open>convert.py: the output check and the validator\<close>

text \<open>
  \<open>validate_html\<close> (lines 37 to 61) raises \<open>RuntimeError\<close> at the first of its three
  checks that fails and prints three lines otherwise.
\<close>

definition validate_html :: "string \<Rightarrow> 'a world \<Rightarrow> (pyexn + unit) \<times> 'a world" where
  "validate_html html_path w =
     (let html_file = html_path @ ''.htm'' in
      if \<not> os_path_exists (fs w) html_file
      then (Inl (raise_exn RuntimeError (''HTML file was not created at '' @ html_file)), w)
      else
        let files_dir = html_path @ ''_files'' in
        if \<not> os_path_exists (fs w) files_dir \<or> \<not> os_path_isdir (fs w) files_dir
        then (Inl (raise_exn RuntimeError
                     (''Supporting files directory not found at '' @ files_dir)), w)
        else
          case os_listdir (fs w) files_dir of
            Inl e \<Rightarrow> (Inl e, w)
          | Inr names \<Rightarrow>
              if names = []
              then (Inl (raise_exn RuntimeError
                           (''Supporting files directory is empty: '' @ files_dir)), w)
              else (Inr (),
                    print (''- Supporting files: '' @ files_dir)
                      (print (''- Main file: '' @ html_file)
                        (print ''HTML validation successful:'' w))))"

text \<open>
  \<open>check_output_exists\<close> (lines 77 to 87) returns the value of a Python \<open>and\<close> chain:
  \<open>False\<close> when one of the first two operands is false, the directory listing otherwise.
  A listing is truthy when it is not empty.
\<close>

datatype check_result = PyFalse | PyListing "string list"

fun truthy :: "check_result \<Rightarrow> bool" where
  "truthy PyFalse = False"
| "truthy (PyListing names) = (names \<noteq> [])"

definition check_output_exists :: "node \<Rightarrow> string \<Rightarrow> pyexn + check_result" where
  "check_output_exists t output_base =
     (let html_file = output_base @ ''.htm'';
          files_dir = output_base @ ''_files'' in
      if \<not> os_path_exists t html_file then Inr PyFalse
      else if \<not> os_path_isdir t files_dir then Inr PyFalse
      else case os_listdir t files_dir of
             Inl e \<Rightarrow> Inl e
           | Inr names \<Rightarrow> Inr (PyListing names))"

definition already_converted :: "node \<Rightarrow> string \<Rightarrow> bool" where
  "already_converted t output_base =
     (case check_output_exists t output_base of Inl e \<Rightarrow> False | Inr v \<Rightarrow> truthy v)"

section \<open>The external collaborators\<close>

text \<open>
  What lies outside the repository is a parameter of the model: \<open>Path.resolve\<close>, the
  diagnostic \<open>Path.with_suffix('')\<close> and \<open>glob.glob\<close>, the \<open>pathlib\<close> operations
  of the tree walker (\<open>Path.stem\<close>, \<open>Path.relative_to\<close> and the operator \<open>/\<close>, each
  on the strings of the paths), the clock of \<open>time\<close>, the process table of
  \<open>psutil\<close>, and the COM interface of the application. A COM call acts on the opaque
  state and returns or raises; \<open>SaveAs\<close> alone also writes the filesystem.
  \<open>time.sleep\<close> changes nothing that is modelled and is left out.
\<close>

datatype kill_outcome = Killed | NoSuchProcess | AccessDenied | KillError pyexn

record 'a env =
  resolve :: "string \<Rightarrow> string"
  with_suffix_empty :: "string \<Rightarrow> string"
  stem :: "string \<Rightarrow> string"
  relative_to :: "string \<Rightarrow> string \<Rightarrow> string"
  path_div :: "string \<Rightarrow> string \<Rightarrow> string"
  glob :: "node \<Rightarrow> string \<Rightarrow> string list"
  time_time :: "'a \<Rightarrow> real \<times> 'a"
  strftime_gmtime :: "real \<Rightarrow> pyexn + string"
  process_iter :: "'a \<Rightarrow> (nat \<times> string option) list \<times> 'a"
  proc_kill :: "nat \<Rightarrow> 'a \<Rightarrow> kill_outcome \<times> 'a"
  EnsureDispatch :: "'a \<Rightarrow> (pyexn + unit) \<times> 'a"
  set_AutomationSecurity :: "int \<Rightarrow> 'a \<Rightarrow> (pyexn + unit) \<times> 'a"
  Open :: "string \<Rightarrow> 'a \<Rightarrow> (pyexn + unit) \<times> 'a"
  SaveAs :: "string \<Rightarrow> int \<Rightarrow> 'a \<Rightarrow> node \<Rightarrow> (pyexn + unit) \<times> 'a \<times> node"
  Close :: "'a \<Rightarrow> (pyexn + unit) \<times> 'a"
  Quit :: "'a \<Rightarrow> (pyexn + unit) \<times> 'a"

text \<open>A call to the application is recorded in \<open>automation\<close>, whatever its outcome.\<close>

definition com :: "com_call \<Rightarrow> ('a \<Rightarrow> 'r \<times> 'a) \<Rightarrow> 'a world \<Rightarrow> 'r \<times> 'a world" where
  "com c f w = (case f (app w) of (r, a) \<Rightarrow> (r, w\<lparr>app := a, automation := automation w @ [c]\<rparr>))"

definition com_SaveAs :: "'a env \<Rightarrow> string \<Rightarrow> int \<Rightarrow> 'a world \<Rightarrow> (pyexn + unit) \<times> 'a world" where
  "com_SaveAs env path format_constant w =
     (case SaveAs env path format_constant (app w) (fs w) of
        (r, a, t) \<Rightarrow> (r, w\<lparr>fs := t, app := a,
                             automation := automation w @ [SaveAs_call path format_constant]\<rparr>))"

definition makedirs :: "string \<Rightarrow> 'a world \<Rightarrow> (pyexn + unit) \<times> 'a world" where
  "makedirs p w =
     (case os_makedirs (fs w) p of
        Inl e \<Rightarrow> (Inl e, w\<lparr>oslog := oslog w @ [makedirs_call p]\<rparr>)
      | Inr t \<Rightarrow> (Inr (), w\<lparr>fs := t, oslog := oslog w @ [makedirs_call p]\<rparr>))"

section \<open>convert.py: killing the application, and the conversion\<close>

text \<open>
  \<open>kill_publisher_processes\<close> (lines 12 to 35). A process whose name is \<open>None\<close> makes
  \<open>.upper()\<close> raise \<open>AttributeError\<close>, which the handler of the loop does not catch.
\<close>

definition none_upper :: pyexn where
  "none_upper = raise_exn AttributeError
     (CHR 0x27 # ''NoneType'' @ CHR 0x27 # '' object has no attribute ''
        @ CHR 0x27 # ''upper'' @ [CHR 0x27])"

fun kill_loop ::
  "'a env \<Rightarrow> (nat \<times> string option) list \<Rightarrow> bool \<Rightarrow> 'a world \<Rightarrow> (pyexn + bool) \<times> 'a world" where
  "kill_loop env [] killed w = (Inr killed, w)"
| "kill_loop env ((pid, name) # procs) killed w =
     (case name of
        None \<Rightarrow> (Inl none_upper, w)
      | Some n \<Rightarrow>
          if contains (upper n) ''MSPUB.EXE''
          then
            (case com (kill_call pid) (proc_kill env pid)
                    (print (''Killing Publisher process '' @ str_nat pid @ ''...'') w) of
               (Killed, w1) \<Rightarrow> kill_loop env procs True w1
             | (NoSuchProcess, w1) \<Rightarrow> kill_loop env procs killed w1
             | (AccessDenied, w1) \<Rightarrow> kill_loop env procs killed w1
             | (KillError e, w1) \<Rightarrow> (Inl e, w1))
          else kill_loop env procs killed w)"

fun still_running :: "(nat \<times> string option) list \<Rightarrow> pyexn + bool" where
  "still_running [] = Inr False"
| "still_running ((pid, name) # procs) =
     (case name of
        None \<Rightarrow> Inl none_upper
      | Some n \<Rightarrow> if contains (upper n) ''MSPUB.EXE'' then Inr True else still_running procs)"

definition kill_publisher_processes :: "'a env \<Rightarrow> 'a world \<Rightarrow> (pyexn + bool) \<times> 'a world" where
  "kill_publisher_processes env w =
     (case process_iter env (app w) of
        (procs, a1) \<Rightarrow>
          (case kill_loop env procs False (w\<lparr>app := a1\<rparr>) of
             (Inl e, w1) \<Rightarrow> (Inl e, w1)
           | (Inr killed, w1) \<Rightarrow>
               if killed
               then
                 (case process_iter env (app w1) of
                    (procs2, a2) \<Rightarrow>
                      (case still_running procs2 of
                         Inl e \<Rightarrow> (Inl e, w1\<lparr>app := a2\<rparr>)
                       | Inr True \<Rightarrow>
                           (Inr False,
                            print ''Warning: Publisher process still running'' (w1\<lparr>app := a2\<rparr>))
                       | Inr False \<Rightarrow> (Inr True, w1\<lparr>app := a2\<rparr>)))
               else (Inr True, w1)))"

text \<open>\<open>check_output_files\<close> (lines 63 to 75): a listing that is only printed.\<close>

definition check_output_files :: "'a env \<Rightarrow> node \<Rightarrow> string \<Rightarrow> string list" where
  "check_output_files env t base_path = glob env t (with_suffix_empty env base_path @ ''*'')"

fun print_all :: "string list \<Rightarrow> 'a world \<Rightarrow> 'a world" where
  "print_all [] w = w"
| "print_all (f # rest) w = print_all rest (print (''- '' @ f) w)"

text \<open>
  The \<open>try\<close> block of one attempt (lines 131 to 171). It returns its outcome together
  with the two local variables \<open>publisher\<close> and \<open>doc\<close> as the handlers find them:
  \<open>True\<close> once the handle has been assigned (a COM object is truthy).
\<close>

definition try_block ::
  "'a env \<Rightarrow> string \<Rightarrow> string \<Rightarrow> int \<Rightarrow> int \<Rightarrow> nat \<Rightarrow> 'a world
     \<Rightarrow> (pyexn + string) \<times> bool \<times> bool \<times> 'a world" where
  "try_block env pub_path output_base format_constant max_retries attempt w =
     (case (if attempt > 0
            then (case kill_publisher_processes env
                         (print (CHR 0x0A # ''Retry attempt '' @ str_nat (attempt + 1) @ '' of ''
                                   @ str_int max_retries @ ''...'') w) of
                    (Inl e, w1) \<Rightarrow> (Inl e, w1)
                  | (Inr ok, w1) \<Rightarrow>
                      (Inr (), if \<not> ok
                               then print ''Warning: Could not kill all Publisher processes'' w1
                               else w1))
            else (Inr (), w)) of
        (Inl e, w1) \<Rightarrow> (Inl e, False, False, w1)
      | (Inr u, w1) \<Rightarrow>
     (case com EnsureDispatch_call (EnsureDispatch env) (print ''Initializing Publisher...'' w1) of
        (Inl e, w2) \<Rightarrow> (Inl e, False, False, w2)
      | (Inr u, w2) \<Rightarrow>
     (case com (AutomationSecurity_call 3) (set_AutomationSecurity env 3) w2 of
        (Inl e, w3) \<Rightarrow> (Inl e, True, False, w3)
      | (Inr u, w3) \<Rightarrow>
     (case com (Open_call pub_path) (Open env pub_path) (print ''Opening document...'' w3) of
        (Inl e, w4) \<Rightarrow> (Inl e, True, False, w4)
      | (Inr u, w4) \<Rightarrow>
     (case com_SaveAs env output_base format_constant (print ''Saving as HTML...'' w4) of
        (Inl e, w5) \<Rightarrow> (Inl e, True, True, w5)
      | (Inr u, w5) \<Rightarrow>
     (let w6 = print ''Checking created files...'' w5;
          created_files = check_output_files env (fs w6) output_base;
          w7 = (if created_files \<noteq> []
                then print_all created_files (print ''Created files:'' w6)
                else print ''No files were created'' w6)
      in case validate_html output_base (print ''Validating HTML...'' w7) of
           (Inl e, w8) \<Rightarrow> (Inl e, True, True, w8)
         | (Inr u, w8) \<Rightarrow> (Inr (output_base @ ''.htm''), True, True, w8)))))))"

text \<open>
  The release of the handles, written twice in the source (lines 180 to 184 and 200 to
  204): \<open>doc.Close()\<close> then \<open>publisher.Quit()\<close> inside one \<open>try\<close>, so that an
  exception of the first skips the second.
\<close>

definition cleanup :: "'a env \<Rightarrow> bool \<Rightarrow> bool \<Rightarrow> 'a world \<Rightarrow> (pyexn + unit) \<times> 'a world" where
  "cleanup env doc publisher w =
     (case (if doc then com Close_call (Close env) w else (Inr (), w)) of
        (Inl e, w1) \<Rightarrow> (Inl e, w1)
      | (Inr u, w1) \<Rightarrow> (if publisher then com Quit_call (Quit env) w1 else (Inr (), w1)))"

text \<open>
  Lines 189 to 195: whether the loop goes on (\<open>Inr True\<close>) or breaks (\<open>Inr False\<close>).
  \<open>len\<close> of an \<open>excepinfo\<close> that is \<open>None\<close> raises \<open>TypeError\<close>.
\<close>

definition none_len :: pyexn where
  "none_len = raise_exn TypeError
     (''object of type '' @ CHR 0x27 # ''NoneType'' @ CHR 0x27 # '' has no len()'')"

definition retry_decision :: "pyexn \<Rightarrow> pyexn + bool" where
  "retry_decision e =
     (case excepinfo e of
        NoAttr \<Rightarrow> Inr False
      | Attr InfoNone \<Rightarrow> Inl none_len
      | Attr (InfoTuple vs) \<Rightarrow>
          (let error_code = (if length vs > 5 then vs ! 5 else PyNone)
           in if error_code \<noteq> PyInt (- 2147221457) then Inr False else Inr True))"

text \<open>The \<open>except\<close> clause (lines 173 to 195); its own cleanup swallows every exception.\<close>

definition except_block ::
  "'a env \<Rightarrow> nat \<Rightarrow> pyexn \<Rightarrow> bool \<Rightarrow> bool \<Rightarrow> 'a world \<Rightarrow> (pyexn + bool) \<times> 'a world" where
  "except_block env attempt e doc publisher w =
     (let w1 = print_err (''Error on attempt '' @ str_nat (attempt + 1) @ '': '' @ exn_str e) w;
          w2 = (case excepinfo e of
                  NoAttr \<Rightarrow> w1
                | Attr i \<Rightarrow> print_err (''Exception info: '' @ str_info i) w1);
          w3 = snd (cleanup env doc publisher w2)
      in (retry_decision e, w3))"

text \<open>The \<open>finally\<close> clause (lines 197 to 206): a failure of the cleanup is printed.\<close>

definition finally_block :: "'a env \<Rightarrow> bool \<Rightarrow> bool \<Rightarrow> 'a world \<Rightarrow> 'a world" where
  "finally_block env doc publisher w =
     (case cleanup env doc publisher (print ''Cleaning up...'' w) of
        (Inl e, w1) \<Rightarrow> print_err (''Warning: Cleanup failed: '' @ exn_str e) w1
      | (Inr u, w1) \<Rightarrow> w1)"

text \<open>One pass through the body of the \<open>for\<close> loop, and how it leaves the loop.\<close>

datatype attempt_result = Returned string | Retry pyexn | Break pyexn | Raised pyexn

definition run_attempt ::
  "'a env \<Rightarrow> string \<Rightarrow> string \<Rightarrow> int \<Rightarrow> int \<Rightarrow> nat \<Rightarrow> 'a world \<Rightarrow> attempt_result \<times> 'a world" where
  "run_attempt env pub_path output_base format_constant max_retries attempt w =
     (case try_block env pub_path output_base format_constant max_retries attempt w of
        (Inr path, publisher, doc, w1) \<Rightarrow> (Returned path, finally_block env doc publisher w1)
      | (Inl e, publisher, doc, w1) \<Rightarrow>
          (case except_block env attempt e doc publisher w1 of
             (Inl raised, w2) \<Rightarrow> (Raised raised, finally_block env doc publisher w2)
           | (Inr True, w2) \<Rightarrow> (Retry e, finally_block env doc publisher w2)
           | (Inr False, w2) \<Rightarrow> (Break e, finally_block env doc publisher w2)))"

text \<open>
  The \<open>for\<close> loop over \<open>range(max_retries)\<close> and the \<open>raise\<close> that follows it
  (lines 126 to 209); \<open>str(None)\<close> is \<open>None\<close>.
\<close>

definition failed_after :: "int \<Rightarrow> pyexn option \<Rightarrow> pyexn" where
  "failed_after max_retries last_error =
     raise_exn RuntimeError
       (''Failed to convert file after '' @ str_int max_retries @ '' attempts: ''
          @ (case last_error of None \<Rightarrow> ''None'' | Some e \<Rightarrow> exn_str e))"

fun attempt_loop ::
  "'a env \<Rightarrow> string \<Rightarrow> string \<Rightarrow> int \<Rightarrow> int \<Rightarrow> nat list \<Rightarrow> pyexn option \<Rightarrow> 'a world
     \<Rightarrow> (pyexn + string) \<times> 'a world" where
  "attempt_loop env pub_path output_base format_constant max_retries [] last_error w =
     (Inl (failed_after max_retries last_error), w)"
| "attempt_loop env pub_path output_base format_constant max_retries (attempt # rest) last_error w =
     (case run_attempt env pub_path output_base format_constant max_retries attempt w of
        (Returned path, w1) \<Rightarrow> (Inr path, w1)
      | (Retry e, w1) \<Rightarrow>
          attempt_loop env pub_path output_base format_constant max_retries rest (Some e) w1
      | (Break e, w1) \<Rightarrow> (Inl (failed_after max_retries (Some e)), w1)
      | (Raised raised, w1) \<Rightarrow> (Inl raised, w1))"

text \<open>
  \<open>convert_pub_to_html\<close> (lines 89 to 209). \<open>Path.absolute\<close> of a resolved path is
  that path.
\<close>

definition convert_pub_to_html ::
  "'a env \<Rightarrow> string \<Rightarrow> string \<Rightarrow> int \<Rightarrow> int \<Rightarrow> 'a world \<Rightarrow> (pyexn + string) \<times> 'a world" where
  "convert_pub_to_html env pub_path0 output_dir0 format_constant max_retries w =
     (let pub_path = resolve env pub_path0;
          output_dir = resolve env output_dir0;
          w1 = print (''Output directory: '' @ output_dir)
                 (print (''Input file path: '' @ pub_path) w)
      in if \<not> os_path_exists (fs w1) pub_path
         then (Inl (raise_exn FileNotFoundError (''Publisher file not found: '' @ pub_path)), w1)
         else if \<not> endswith (lower pub_path) ''.pub''
         then (Inl (raise_exn ValueError ''File must have .pub extension''), w1)
         else
           case makedirs output_dir w1 of
             (Inl e, w2) \<Rightarrow> (Inl e, w2)
           | (Inr u, w2) \<Rightarrow>
               (let base_name = splitext_root (basename pub_path);
                    output_base = os_path_join output_dir base_name;
                    w3 = print (''Output base path: '' @ output_base) w2
                in case check_output_exists (fs w3) output_base of
                     Inl e \<Rightarrow> (Inl e, w3)
                   | Inr v \<Rightarrow>
                       if truthy v
                       then (Inr (output_base @ ''.htm''),
                             print (''File already converted, skipping: '' @ output_base @ ''.htm'') w3)
                       else attempt_loop env pub_path output_base format_constant max_retries
                              [0..<nat max_retries] None w3))"

section \<open>convert_tree_to_pub.py: the tree walker\<close>

text \<open>
  \<open>os.walk(top)\<close>, top down: a directory yields its own path, the names of its
  subdirectories and the names of its files, and then the yields of each subdirectory.
  \<open>os.walk\<close> is a generator; the model takes the sequence of its yields from the tree
  as it is when the pass starts, which is what the generator gives as long as a
  conversion adds or removes no directory that is still to be visited.
\<close>

fun walk :: "string \<Rightarrow> node \<Rightarrow> (string \<times> string list \<times> string list) list" where
  "walk topdir File = []"
| "walk topdir (Dir es) =
     (topdir, map fst (filter (\<lambda>(n, c). c \<noteq> File) es), map fst (filter (\<lambda>(n, c). c = File) es))
       # concat (map (\<lambda>(n, c). walk (os_path_join topdir n) c) es)"

definition os_walk :: "string \<Rightarrow> 'a world \<Rightarrow> (string \<times> string list \<times> string list) list \<times> 'a world" where
  "os_walk topdir w =
     ((case lookup (fs w) (components topdir) of None \<Rightarrow> [] | Some n \<Rightarrow> walk topdir n),
      w\<lparr>oslog := oslog w @ [walk_call topdir]\<rparr>)"

definition is_pub :: "string \<Rightarrow> bool" where
  "is_pub f = endswith (lower f) ''.pub''"

text \<open>\<open>count_pub_files\<close> (lines 8 to 20): the first pass.\<close>

fun count_loop :: "(string \<times> string list \<times> string list) list \<Rightarrow> nat \<Rightarrow> nat" where
  "count_loop [] count = count"
| "count_loop ((root_dir, dirs, files) # rest) count =
     count_loop rest (count + length (filter is_pub files))"

definition count_pub_files :: "'a env \<Rightarrow> string \<Rightarrow> 'a world \<Rightarrow> nat \<times> 'a world" where
  "count_pub_files env input_path0 w =
     (let input_path = resolve env input_path0
      in case os_walk input_path (print ''Scanning directory structure...'' w) of
           (yields, w1) \<Rightarrow> (count_loop yields 0, w1))"

text \<open>
  The clock: \<open>time.time()\<close> reads the opaque state, and
  \<open>time.strftime('%H:%M:%S', time.gmtime(t))\<close> gives a text or raises (\<open>gmtime\<close> refuses
  a value out of its range, on Windows every negative one). A Python float is taken as a
  real number; no claim depends on its value.
\<close>

definition read_clock :: "'a env \<Rightarrow> 'a world \<Rightarrow> real \<times> 'a world" where
  "read_clock env w = (case time_time env (app w) of (now, a) \<Rightarrow> (now, w\<lparr>app := a\<rparr>))"

text \<open>
  One pass through the body of the inner loop (lines 60 to 91) for one file. The output
  check (line 66) and the two formatted times (lines 80 and 81) stand outside the
  \<open>try\<close> of line 87: what they raise leaves the loop. \<open>convert_pub_to_html\<close> is called
  with its defaults, format 7 and 3 retries; whatever it raises is printed and dropped.
\<close>

fun visit_file ::
  "'a env \<Rightarrow> string \<Rightarrow> string \<Rightarrow> nat \<Rightarrow> real \<Rightarrow> string \<Rightarrow> nat \<times> nat \<Rightarrow> 'a world
     \<Rightarrow> (pyexn + nat \<times> nat) \<times> 'a world" where
  "visit_file env current_dir out_dir total_files start_time file (files_converted, files_skipped) w =
     (let pub_file = path_div env current_dir file;
          base_name = stem env file;
          output_base = path_div env out_dir base_name
      in case check_output_exists (fs w) output_base of
           Inl e \<Rightarrow> (Inl e, w)
         | Inr v \<Rightarrow>
             if truthy v
             then (Inr (files_converted, files_skipped + 1),
                   print (CHR 0x0A # ''Skipping already converted file (''
                            @ str_nat (files_skipped + 1) @ '' skipped): '' @ pub_file) w)
             else
               (let files_converted = files_converted + 1;
                    files_processed = files_converted + files_skipped
                in case read_clock env w of
                     (now, w0) \<Rightarrow>
                       (let elapsed_time = now - start_time;
                            avg_time_per_file =
                              (if files_converted > 0 then elapsed_time / real files_converted else 0);
                            est_remaining_time =
                              avg_time_per_file * real_of_int (int total_files - int files_processed)
                        in case strftime_gmtime env elapsed_time of
                             Inl e \<Rightarrow> (Inl e, w0)
                           | Inr elapsed_str \<Rightarrow>
                               (case strftime_gmtime env est_remaining_time of
                                  Inl e \<Rightarrow> (Inl e, w0)
                                | Inr remaining_str \<Rightarrow>
                                    (case convert_pub_to_html env pub_file out_dir 7 3
                                            (print (''Progress: '' @ str_nat files_converted
                                                      @ '' converted, '' @ str_nat files_skipped
                                                      @ '' skipped'')
                                              (print (''Time elapsed: '' @ elapsed_str
                                                        @ '', estimated time remaining: ''
                                                        @ remaining_str)
                                                (print (CHR 0x0A # ''Converting file ''
                                                          @ str_nat files_processed @ '' of ''
                                                          @ str_nat total_files @ '': '' @ pub_file)
                                                   w0))) of
                                       (Inr html_path, w2) \<Rightarrow>
                                         (Inr (files_converted, files_skipped),
                                          print (''Converted to: '' @ html_path) w2)
                                     | (Inl e, w2) \<Rightarrow>
                                         (Inr (files_converted, files_skipped),
                                          print_err (''Error converting '' @ pub_file @ '': ''
                                                       @ exn_str e) w2))))))"

fun file_loop ::
  "'a env \<Rightarrow> string \<Rightarrow> string \<Rightarrow> nat \<Rightarrow> real \<Rightarrow> string list \<Rightarrow> nat \<times> nat \<Rightarrow> 'a world
     \<Rightarrow> (pyexn + nat \<times> nat) \<times> 'a world" where
  "file_loop env current_dir out_dir total_files start_time [] counts w = (Inr counts, w)"
| "file_loop env current_dir out_dir total_files start_time (file # rest) counts w =
     (case visit_file env current_dir out_dir total_files start_time file counts w of
        (Inl e, w1) \<Rightarrow> (Inl e, w1)
      | (Inr counts1, w1) \<Rightarrow>
          file_loop env current_dir out_dir total_files start_time rest counts1 w1)"

text \<open>The outer loop (lines 45 to 91); \<open>os.makedirs\<close> stands outside every \<open>try\<close>.\<close>

fun dir_loop ::
  "'a env \<Rightarrow> string \<Rightarrow> string \<Rightarrow> nat \<Rightarrow> real \<Rightarrow> (string \<times> string list \<times> string list) list
     \<Rightarrow> nat \<times> nat \<Rightarrow> 'a world \<Rightarrow> (pyexn + nat \<times> nat) \<times> 'a world" where
  "dir_loop env input_path output_path total_files start_time [] counts w = (Inr counts, w)"
| "dir_loop env input_path output_path total_files start_time ((root_dir, dirs, files) # rest) counts w =
     (let w1 = print (CHR 0x0A # ''Entering directory: '' @ root_dir) w;
          pub_files = filter is_pub files
      in if pub_files \<noteq> []
         then
           let rel_path = relative_to env root_dir input_path;
               out_dir = path_div env output_path rel_path
           in case makedirs out_dir w1 of
                (Inl e, w2) \<Rightarrow> (Inl e, w2)
              | (Inr u, w2) \<Rightarrow>
                  (case file_loop env root_dir out_dir total_files start_time pub_files counts w2 of
                     (Inl e, w3) \<Rightarrow> (Inl e, w3)
                   | (Inr counts1, w3) \<Rightarrow>
                       dir_loop env input_path output_path total_files start_time rest counts1 w3)
         else dir_loop env input_path output_path total_files start_time rest counts w1)"

text \<open>
  \<open>convert_directory\<close> (lines 22 to 102). The total time (lines 94 and 95) is formatted
  after the loop, outside every \<open>try\<close>.
\<close>

definition convert_directory ::
  "'a env \<Rightarrow> string \<Rightarrow> string \<Rightarrow> 'a world \<Rightarrow> (pyexn + nat \<times> nat) \<times> 'a world" where
  "convert_directory env input_path0 output_path0 w =
     (let input_path = resolve env input_path0;
          output_path = resolve env output_path0
      in if \<not> os_path_exists (fs w) input_path
         then (Inl (raise_exn FileNotFoundError (''Input directory not found: '' @ input_path)), w)
         else
           case count_pub_files env input_path w of
             (total_files, w1) \<Rightarrow>
               let w2 = print (CHR 0x0A # ''Found '' @ str_nat total_files
                                 @ '' Publisher files to convert'') w1
               in if total_files = 0
                  then (Inr (0, 0), print ''No files to convert'' w2)
                  else
                    (case read_clock env w2 of
                       (start_time, w2a) \<Rightarrow>
                    (case os_walk input_path w2a of
                       (yields, w3) \<Rightarrow>
                    (case dir_loop env input_path output_path total_files start_time yields
                            (0, 0) w3 of
                       (Inl e, w4) \<Rightarrow> (Inl e, w4)
                     | (Inr (files_converted, files_skipped), w4) \<Rightarrow>
                    (case read_clock env w4 of
                       (now, w5) \<Rightarrow>
                    (case strftime_gmtime env (now - start_time) of
                       Inl e \<Rightarrow> (Inl e, w5)
                     | Inr total_time_str \<Rightarrow>
                         (Inr (files_converted, files_skipped),
                          print (''Total time: '' @ total_time_str)
                            (print (''Skipped: '' @ str_nat files_skipped)
                              (print (''Converted: '' @ str_nat files_converted)
                                (print (''Total files: '' @ str_nat total_files)
                                  (print (CHR 0x0A # ''Conversion complete:'') w5)))))))))))"

text \<open>
  The number of files with the extension in a tree, and in the tree under a path; and
  the outcome of the output check at each visit of the second pass, in the order of the
  visits: the check of a file is read in the state that the walk has reached when it
  comes to that file.
\<close>

fun count_tree :: "node \<Rightarrow> nat" where
  "count_tree File = 0"
| "count_tree (Dir es) =
     sum_list (map (\<lambda>(n, c). case c of File \<Rightarrow> (if is_pub n then 1 else 0)
                                       | Dir ds \<Rightarrow> count_tree c) es)"

definition tree_pub_files :: "node \<Rightarrow> string \<Rightarrow> nat" where
  "tree_pub_files t topdir = (case lookup t (components topdir) of None \<Rightarrow> 0 | Some n \<Rightarrow> count_tree n)"

fun file_checks ::
  "'a env \<Rightarrow> string \<Rightarrow> string \<Rightarrow> nat \<Rightarrow> real \<Rightarrow> string list \<Rightarrow> nat \<times> nat \<Rightarrow> 'a world
     \<Rightarrow> bool list" where
  "file_checks env current_dir out_dir total_files start_time [] counts w = []"
| "file_checks env current_dir out_dir total_files start_time (file # rest) counts w =
     already_converted (fs w) (path_div env out_dir (stem env file))
       # (case visit_file env current_dir out_dir total_files start_time file counts w of
            (Inl e, w1) \<Rightarrow> []
          | (Inr counts1, w1) \<Rightarrow>
              file_checks env current_dir out_dir total_files start_time rest counts1 w1)"

fun dir_checks ::
  "'a env \<Rightarrow> string \<Rightarrow> string \<Rightarrow> nat \<Rightarrow> real \<Rightarrow> (string \<times> string list \<times> string list) list
     \<Rightarrow> nat \<times> nat \<Rightarrow> 'a world \<Rightarrow> bool list" where
  "dir_checks env input_path output_path total_files start_time [] counts w = []"
| "dir_checks env input_path output_path total_files start_time ((root_dir, dirs, files) # rest) counts w =
     (let w1 = print (CHR 0x0A # ''Entering directory: '' @ root_dir) w;
          pub_files = filter is_pub files
      in if pub_files \<noteq> []
         then
           let out_dir = path_div env output_path (relative_to env root_dir input_path)
           in case makedirs out_dir w1 of
                (Inl e, w2) \<Rightarrow> []
              | (Inr u, w2) \<Rightarrow>
                  file_checks env root_dir out_dir total_files start_time pub_files counts w2
                    @ (case file_loop env root_dir out_dir total_files start_time pub_files counts w2 of
                         (Inl e, w3) \<Rightarrow> []
                       | (Inr counts1, w3) \<Rightarrow>
                           dir_checks env input_path output_path total_files start_time rest
                             counts1 w3)
         else dir_checks env input_path output_path total_files start_time rest counts w1)"

definition visit_checks :: "'a env \<Rightarrow> string \<Rightarrow> string \<Rightarrow> 'a world \<Rightarrow> bool list" where
  "visit_checks env input_path0 output_path0 w =
     (let input_path = resolve env input_path0;
          output_path = resolve env output_path0
      in case count_pub_files env input_path w of
           (total_files, w1) \<Rightarrow>
             (case read_clock env
                     (print (CHR 0x0A # ''Found '' @ str_nat total_files
                               @ '' Publisher files to convert'') w1) of
                (start_time, w2a) \<Rightarrow>
                  (case os_walk input_path w2a of
                     (yields, w3) \<Rightarrow>
                       dir_checks env input_path output_path total_files start_time yields
                         (0, 0) w3)))"

section \<open>explore_formats.py: the format probe\<close>

text \<open>
  Further library functions that the probe uses are parameters: \<open>Path.absolute\<close>,
  \<open>Path.suffix\<close>, \<open>mimetypes.guess_type\<close>, and the number of pages that
  \<open>PdfReader\<close> finds (\<open>None\<close> when it raises).
\<close>

record probe =
  absolute :: "string \<Rightarrow> string"
  suffix :: "string \<Rightarrow> string"
  guess_type :: "string \<Rightarrow> string option"
  pdf_pages :: "node \<Rightarrow> string \<Rightarrow> nat option"

definition os_path_isfile :: "node \<Rightarrow> string \<Rightarrow> bool" where
  "os_path_isfile t p = (lookup t (components p) = Some File)"

text \<open>\<open>detect_file_type\<close> (lines 14 to 47).\<close>

definition detect_file_type :: "probe \<Rightarrow> node \<Rightarrow> string \<Rightarrow> string" where
  "detect_file_type pr t filepath =
     (if os_path_isdir t filepath then ''Directory''
      else
        let ext = lower (suffix pr filepath);
            mime_type = guess_type pr filepath
        in if ext = ''.pdf''
           then (case pdf_pages pr t filepath of
                   Some num_pages \<Rightarrow> ''Valid PDF ('' @ str_nat num_pages @ '' pages)''
                 | None \<Rightarrow> ''Invalid PDF'')
           else if ext = ''.htm'' \<or> ext = ''.html'' then ''HTML document''
           else if ext = ''.txt'' then ''Text document''
           else if ext = ''.rtf'' then ''Rich Text document''
           else if ext = ''.pub'' then ''Publisher document''
           else (case mime_type of
                   Some m \<Rightarrow> m
                 | None \<Rightarrow> ''Unknown ('' @ ext @ '')''))"

text \<open>
  \<open>clean_output_dir\<close> (lines 49 to 60): every entry of the directory but
  \<open>.gitkeep\<close> is deleted, a file by \<open>os.unlink\<close> and a directory by
  \<open>shutil.rmtree\<close>, which always succeed on the tree; \<open>os.listdir\<close> raises when
  the directory is not there.
\<close>

fun delete_entry :: "node \<Rightarrow> string list \<Rightarrow> string \<Rightarrow> node" where
  "delete_entry (Dir es) [] name = Dir (filter (\<lambda>(n, c). n \<noteq> name) es)"
| "delete_entry File [] name = File"
| "delete_entry File (c # cs) name = File"
| "delete_entry (Dir es) (c # cs) name =
     (case map_of es c of
        None \<Rightarrow> Dir es
      | Some n \<Rightarrow> Dir (update_entry c (delete_entry n cs name) es))"

fun clean_loop :: "string \<Rightarrow> string list \<Rightarrow> node \<Rightarrow> node" where
  "clean_loop output_dir [] t = t"
| "clean_loop output_dir (item # rest) t =
     clean_loop output_dir rest
       (if item \<noteq> ''.gitkeep''
        then (let path = os_path_join output_dir item
              in if os_path_isfile t path \<or> os_path_isdir t path
                 then delete_entry t (components output_dir) item
                 else t)
        else t)"

definition clean_output_dir :: "string \<Rightarrow> 'a world \<Rightarrow> (pyexn + unit) \<times> 'a world" where
  "clean_output_dir output_dir w =
     (case os_listdir (fs w) output_dir of
        Inl e \<Rightarrow> (Inl e, w)
      | Inr items \<Rightarrow> (Inr (), w\<lparr>fs := clean_loop output_dir items (fs w)\<rparr>))"

text \<open>
  \<open>test_format_constant\<close> (lines 62 to 121): the \<open>try\<close> block with the two local
  handles, then the result built by the \<open>except\<close> clause, then the cleanup, whose
  exceptions are dropped.
\<close>

record probe_result =
  result_constant :: int
  result_files :: "(string \<times> string) list"
  result_error :: "string option"

definition created_files_of :: "probe \<Rightarrow> node \<Rightarrow> string \<Rightarrow> string list \<Rightarrow> (string \<times> string) list" where
  "created_files_of pr t output_dir items =
     map (\<lambda>item. (item, detect_file_type pr t (os_path_join output_dir item)))
       (filter (\<lambda>item. item \<noteq> ''.gitkeep'') items)"

definition probe_try ::
  "'a env \<Rightarrow> probe \<Rightarrow> string \<Rightarrow> string \<Rightarrow> int \<Rightarrow> 'a world
     \<Rightarrow> (pyexn + (string \<times> string) list) \<times> bool \<times> bool \<times> 'a world" where
  "probe_try env pr pub_path output_dir format_constant w =
     (case clean_output_dir output_dir w of
        (Inl e, w1) \<Rightarrow> (Inl e, False, False, w1)
      | (Inr u, w1) \<Rightarrow>
     (case com EnsureDispatch_call (EnsureDispatch env) w1 of
        (Inl e, w2) \<Rightarrow> (Inl e, False, False, w2)
      | (Inr u, w2) \<Rightarrow>
     (case com (Open_call (absolute pr pub_path)) (Open env (absolute pr pub_path)) w2 of
        (Inl e, w3) \<Rightarrow> (Inl e, True, False, w3)
      | (Inr u, w3) \<Rightarrow>
     (let base_name = stem env pub_path;
          output_path = path_div env (absolute pr output_dir) base_name;
          w4 = print (''  Format constant: '' @ str_int format_constant @ '' (type: <class ''
                        @ CHR 0x27 # ''int'' @ CHR 0x27 # ''>)'')
                 (print (''  Path: '' @ output_path)
                   (print (CHR 0x0A # ''Debug - SaveAs parameters:'') w3))
      in case com_SaveAs env output_path format_constant w4 of
           (Inl e, w5) \<Rightarrow> (Inl e, True, True, w5)
         | (Inr u, w5) \<Rightarrow>
             (case os_listdir (fs w5) output_dir of
                Inl e \<Rightarrow> (Inl e, True, True, w5)
              | Inr items \<Rightarrow>
                  (Inr (created_files_of pr (fs w5) output_dir items), True, True, w5))))))"

definition test_format_constant ::
  "'a env \<Rightarrow> probe \<Rightarrow> string \<Rightarrow> string \<Rightarrow> int \<Rightarrow> 'a world \<Rightarrow> probe_result \<times> 'a world" where
  "test_format_constant env pr pub_path output_dir format_constant w =
     (case probe_try env pr pub_path output_dir format_constant w of
        (Inr created_files, publisher, doc, w1) \<Rightarrow>
          (\<lparr>result_constant = format_constant, result_files = created_files,
            result_error = None\<rparr>,
           snd (cleanup env doc publisher w1))
      | (Inl e, publisher, doc, w1) \<Rightarrow>
          (\<lparr>result_constant = format_constant, result_files = [],
            result_error = Some (case excepinfo e of
                                   Attr i \<Rightarrow> ''COM Error: '' @ str_info i
                                 | NoAttr \<Rightarrow> exn_str e)\<rparr>,
           snd (cleanup env doc publisher w1)))"

text \<open>
  The loop of \<open>explore_format_constants\<close> (lines 140 to 146) with its filter; the table
  that is printed from \<open>results\<close> afterwards is left out.
\<close>

definition interesting :: "probe_result \<Rightarrow> bool" where
  "interesting result = (result_files result \<noteq> [] \<or> result_error result \<noteq> Some ''COM Error: None'')"

fun explore_loop ::
  "'a env \<Rightarrow> probe \<Rightarrow> string \<Rightarrow> string \<Rightarrow> int list \<Rightarrow> probe_result list \<Rightarrow> 'a world
     \<Rightarrow> probe_result list \<times> 'a world" where
  "explore_loop env pr pub_path output_dir [] results w = (results, w)"
| "explore_loop env pr pub_path output_dir (i # rest) results w =
     (case test_format_constant env pr pub_path output_dir i
             (print (CHR 0x0D # ''Testing format constant '' @ str_int i @ ''...'') w) of
        (result, w1) \<Rightarrow>
          explore_loop env pr pub_path output_dir rest
            (if interesting result then results @ [result] else results) w1)"

definition explore_format_constants ::
  "'a env \<Rightarrow> probe \<Rightarrow> string \<Rightarrow> string \<Rightarrow> int \<Rightarrow> int \<Rightarrow> 'a world
     \<Rightarrow> (pyexn + probe_result list) \<times> 'a world" where
  "explore_format_constants env pr pub_path output_dir start end_constant w =
     (let int_class = ''<class '' @ CHR 0x27 # ''int'' @ CHR 0x27 # ''>'';
          w0 = print []
                 (print (''Output directory: '' @ output_dir)
                   (print (''Input file: '' @ pub_path)
                     (print (''Testing format constants '' @ str_int start @ '' through ''
                               @ str_int end_constant @ ''...'')
                       (print (''End type: '' @ int_class @ '', value: '' @ str_int end_constant)
                         (print (''Start type: '' @ int_class @ '', value: '' @ str_int start) w)))))
      in case explore_loop env pr pub_path output_dir [start..end_constant] [] w0 of
           (results, w1) \<Rightarrow>
             (case clean_output_dir output_dir
                     (print (CHR 0x0A # CHR 0x0A # ''Results:'') w1) of
                (Inl e, w2) \<Rightarrow> (Inl e, w2)
              | (Inr u, w2) \<Rightarrow> (Inr results, w2)))"

text \<open>
  Notions for the proofs about the walker: the files with the extension among some
  yields; an error raised outside the \<open>try\<close> of line 87, which is the error of
  \<open>os.makedirs\<close> for the mirrored directory of a yielded directory that holds such a
  file, or of the output check, or of a formatted time; and what a run of a loop over
  some yields must satisfy.
\<close>

definition yield_pubs :: "(string \<times> string list \<times> string list) list \<Rightarrow> nat" where
  "yield_pubs ys = sum_list (map (\<lambda>(root_dir, dirs, files). length (filter is_pub files)) ys)"

definition raised_outside_try ::
  "'a env \<Rightarrow> string \<Rightarrow> string \<Rightarrow> (string \<times> string list \<times> string list) list \<Rightarrow> pyexn \<Rightarrow> bool" where
  "raised_outside_try env input_path output_path ys e =
     ((\<exists>root_dir dirs files t. (root_dir, dirs, files) \<in> set ys \<and> filter is_pub files \<noteq> []
          \<and> os_makedirs t (path_div env output_path (relative_to env root_dir input_path)) = Inl e)
      \<or> (\<exists>t output_base. check_output_exists t output_base = Inl e)
      \<or> (\<exists>x. strftime_gmtime env x = Inl e))"

definition walk_outcome ::
  "'a env \<Rightarrow> string \<Rightarrow> string \<Rightarrow> (string \<times> string list \<times> string list) list \<Rightarrow> nat \<times> nat
     \<Rightarrow> bool list \<Rightarrow> nat \<Rightarrow> (pyexn + nat \<times> nat) \<times> 'a world \<Rightarrow> bool" where
  "walk_outcome env input_path output_path ys counts checks n res =
     (case res of
        (Inr (c', s'), w') \<Rightarrow>
          c' = fst counts + length (filter Not checks) \<and> s' = snd counts + length (filter id checks)
          \<and> length checks = n
      | (Inl e, w') \<Rightarrow> raised_outside_try env input_path output_path ys e)"

section \<open>What the claims observe\<close>

text \<open>
  The \<open>finally\<close> clause prints its line once in every pass through the loop body, and
  nothing else prints that line: the attempts of a run are counted there. An error
  carries a code when its \<open>excepinfo\<close> is a tuple whose field 5 is that integer.
\<close>

definition attempts_made :: "'a world \<Rightarrow> nat" where
  "attempts_made w = count_list (stdout w) ''Cleaning up...''"

definition carries_error_code :: "pyexn \<Rightarrow> int \<Rightarrow> bool" where
  "carries_error_code e c =
     (case excepinfo e of
        Attr (InfoTuple vs) \<Rightarrow> length vs > 5 \<and> vs ! 5 = PyInt c
      | _ \<Rightarrow> False)"

section \<open>Concrete states used to run the definitions\<close>

definition fs_primary_only :: node where
  "fs_primary_only = Dir [(''out'', Dir [(''a.htm'', File)])]"

definition fs_converted :: node where
  "fs_converted =
     Dir [(''in'', Dir [(''a.pub'', File)]),
          (''out'', Dir [(''a.htm'', File), (''a_files'', Dir [(''image001.png'', File)])])]"

definition world_of :: "node \<Rightarrow> unit world" where
  "world_of t = \<lparr>fs = t, app = (), automation = [], oslog = [], stdout = [], stderr = []\<rparr>"

definition modal_error :: pyexn where
  "modal_error = PyExn com_error ''(-2147352567, Exception occurred.)''
     (Attr (InfoTuple [PyInt 0, PyObj ''Microsoft Publisher'', PyObj ''modal dialog'', PyNone,
                       PyInt 0, PyInt (- 2147221457)]))"

definition other_error :: pyexn where
  "other_error = PyExn com_error ''(-2147352567, Exception occurred.)''
     (Attr (InfoTuple [PyInt 0, PyObj ''Microsoft Publisher'', PyObj ''cannot open'', PyNone,
                       PyInt 0, PyInt (- 2147467259)]))"

definition fs_source_only :: node where
  "fs_source_only = Dir [(''in'', Dir [(''a.pub'', File)])]"

definition env_ok :: "unit env" where
  "env_ok = \<lparr>resolve = (\<lambda>p. p), with_suffix_empty = (\<lambda>p. p), stem = splitext_root,
     relative_to = (\<lambda>p start. drop (Suc (length start)) p),
     path_div = (\<lambda>a b. if b = [] then a else os_path_join a b),
     glob = (\<lambda>t p. []),
     time_time = (\<lambda>a. (0, a)), strftime_gmtime = (\<lambda>x. Inr ''00:00:00''),
     process_iter = (\<lambda>a. ([], a)), proc_kill = (\<lambda>pid a. (Killed, a)),
     EnsureDispatch = (\<lambda>a. (Inr (), a)), set_AutomationSecurity = (\<lambda>level a. (Inr (), a)),
     Open = (\<lambda>p a. (Inr (), a)), SaveAs = (\<lambda>p f a t. (Inr (), a, fs_converted)),
     Close = (\<lambda>a. (Inr (), a)), Quit = (\<lambda>a. (Inr (), a))\<rparr>"

definition env_modal :: "unit env" where
  "env_modal = env_ok\<lparr>EnsureDispatch := (\<lambda>a. (Inl modal_error, a))\<rparr>"

definition env_other :: "unit env" where
  "env_other = env_ok\<lparr>Open := (\<lambda>p a. (Inl other_error, a))\<rparr>"

definition close_error :: pyexn where
  "close_error = PyExn com_error ''(-2147023170, The remote procedure call failed.)'' (Attr InfoNone)"

definition env_close_fails :: "unit env" where
  "env_close_fails = env_ok\<lparr>Close := (\<lambda>a. (Inl close_error, a))\<rparr>"

definition fs_blocked :: node where
  "fs_blocked = Dir [(''in'', Dir [(''a.pub'', File)]), (''blocked'', File)]"

definition fs_no_pubs :: node where
  "fs_no_pubs = Dir [(''in'', Dir [(''readme.txt'', File), (''sub'', Dir [(''x.doc'', File)])])]"

definition class_error :: pyexn where
  "class_error = PyExn com_error ''(-2147221005, Invalid class string, None, None)'' (Attr InfoNone)"

definition env_no_publisher :: "unit env" where
  "env_no_publisher = env_ok\<lparr>EnsureDispatch := (\<lambda>a. (Inl class_error, a))\<rparr>"

definition probe_ok :: probe where
  "probe_ok = \<lparr>absolute = (\<lambda>p. p), suffix = (\<lambda>p. []), guess_type = (\<lambda>p. None),
                pdf_pages = (\<lambda>t p. None)\<rparr>"

definition fs_two :: node where
  "fs_two =
     Dir [(''in'', Dir [(''a.pub'', File), (''b.pub'', File)]),
          (''out'', Dir [(''a.htm'', File), (''a_files'', Dir [(''image001.png'', File)])])]"

definition fs_doc_only :: node where
  "fs_doc_only = Dir [(''in'', Dir [(''a.doc'', File)])]"

definition env_link :: "unit env" where
  "env_link = env_ok\<lparr>resolve := (\<lambda>p. if p = ''/in/link'' then ''/in/a.pub'' else p)\<rparr>"

section \<open>Facts about the filesystem\<close>

lemma isdir_exists: "os_path_isdir t p \<Longrightarrow> os_path_exists t p"
  by (auto simp: os_path_isdir_def os_path_exists_def split: option.splits)

lemma listdir_isdir: "os_path_isdir t p \<Longrightarrow> \<exists>names. os_listdir t p = Inr names"
  by (auto simp: os_path_isdir_def os_listdir_def split: option.splits node.splits)

text \<open>The definitions that a run on a concrete state unfolds.\<close>

lemmas eval_defs =
  convert_directory_def count_pub_files_def os_walk_def is_pub_def visit_checks_def read_clock_def
  convert_pub_to_html_def env_ok_def env_modal_def env_link_def modal_error_def world_of_def
  fs_source_only_def fs_converted_def fs_blocked_def fs_no_pubs_def fs_two_def fs_doc_only_def
  tree_pub_files_def
  os_path_exists_def os_path_isdir_def os_listdir_def os_makedirs_def components_def is_sep_def
  endswith_def lower_def lower_char_def splitext_root_def basename_def os_path_join_def
  makedirs_def print_def print_err_def check_output_exists_def already_converted_def raise_exn_def
  upt_conv_Cons run_attempt_def try_block_def com_def com_SaveAs_def check_output_files_def
  validate_html_def finally_block_def cleanup_def except_block_def retry_decision_def
  kill_publisher_processes_def Let_def

section \<open>The validator and the output check\<close>

text \<open>
  C3. Whenever the primary file \<open>output_base + '.htm'\<close> exists and the directory
  \<open>output_base + '_files'\<close> is absent, is not a directory, or has no entries,
  \<open>validate_html\<close> raises a \<open>RuntimeError\<close> (and changes nothing).
\<close>

theorem validate_html_requires_resources:
  assumes "os_path_exists (fs w) (output_base @ ''.htm'')"
    and "\<not> os_path_exists (fs w) (output_base @ ''_files'')
         \<or> \<not> os_path_isdir (fs w) (output_base @ ''_files'')
         \<or> os_listdir (fs w) (output_base @ ''_files'') = Inr []"
  shows "\<exists>msg. validate_html output_base w = (Inl (raise_exn RuntimeError msg), w)"
  using assms listdir_isdir[of "fs w" "output_base @ ''_files''"]
  by (auto simp: validate_html_def Let_def split: sum.splits)

theorem validate_html_requires_resources_witness:
  "os_path_exists (fs (world_of fs_primary_only)) (''/out/a'' @ ''.htm'')
   \<and> \<not> os_path_exists (fs (world_of fs_primary_only)) (''/out/a'' @ ''_files'')
   \<and> (\<exists>msg. validate_html ''/out/a'' (world_of fs_primary_only)
                = (Inl (raise_exn RuntimeError msg), world_of fs_primary_only))"
proof -
  have a: "os_path_exists (fs (world_of fs_primary_only)) (''/out/a'' @ ''.htm'')"
    by (simp add: world_of_def fs_primary_only_def os_path_exists_def components_def is_sep_def)
  have b: "\<not> os_path_exists (fs (world_of fs_primary_only)) (''/out/a'' @ ''_files'')"
    by (simp add: world_of_def fs_primary_only_def os_path_exists_def components_def is_sep_def)
  from validate_html_requires_resources[OF a disjI1[OF b]] a b show ?thesis by blast
qed

text \<open>
  C4. \<open>check_output_exists\<close> returns a truthy value exactly when \<open>validate_html\<close>
  does not raise. \<open>check_output_exists\<close> is a function of the filesystem alone;
  \<open>validate_html\<close> writes to standard output only: it leaves the filesystem, the
  application and both call traces as they were.
\<close>

theorem check_output_exists_iff_validate_html:
  "((\<exists>v. check_output_exists (fs w) output_base = Inr v \<and> truthy v)
      \<longleftrightarrow> (\<exists>u. fst (validate_html output_base w) = Inr u))
   \<and> fs (snd (validate_html output_base w)) = fs w
   \<and> app (snd (validate_html output_base w)) = app w
   \<and> automation (snd (validate_html output_base w)) = automation w
   \<and> oslog (snd (validate_html output_base w)) = oslog w"
  using isdir_exists[of "fs w" "output_base @ ''_files''"]
  by (auto simp: validate_html_def check_output_exists_def Let_def print_def split: sum.splits)

theorem check_output_exists_iff_validate_html_witness:
  "(\<exists>v. check_output_exists (fs (world_of fs_converted)) ''/out/a'' = Inr v \<and> truthy v)
   \<and> (\<exists>u. fst (validate_html ''/out/a'' (world_of fs_converted)) = Inr u)
   \<and> fs (snd (validate_html ''/out/a'' (world_of fs_converted))) = fs_converted"
proof -
  have a: "check_output_exists (fs (world_of fs_converted)) ''/out/a''
             = Inr (PyListing [''image001.png''])"
    by (simp add: world_of_def fs_converted_def check_output_exists_def os_path_exists_def
        os_path_isdir_def os_listdir_def components_def is_sep_def)
  have b: "fs (world_of fs_converted) = fs_converted"
    by (simp add: world_of_def)
  from check_output_exists_iff_validate_html[of "world_of fs_converted" "''/out/a''"] a b
  show ?thesis by simp
qed

section \<open>Counting the attempts\<close>

lemma attempts_print [simp]:
  "attempts_made (print s w) = attempts_made w + (if s = ''Cleaning up...'' then 1 else 0)"
  by (simp add: attempts_made_def print_def)

lemma attempts_print_err [simp]: "attempts_made (print_err s w) = attempts_made w"
  by (simp add: attempts_made_def print_err_def)

lemma attempts_com [simp]: "attempts_made (snd (com c f w)) = attempts_made w"
  by (simp add: attempts_made_def com_def split: prod.splits)

lemma attempts_com_SaveAs [simp]: "attempts_made (snd (com_SaveAs env p f w)) = attempts_made w"
  by (simp add: attempts_made_def com_SaveAs_def split: prod.splits)

lemma attempts_app_update [simp]: "attempts_made (w\<lparr>app := a\<rparr>) = attempts_made w"
  by (simp add: attempts_made_def)

lemma attempts_print_all [simp]: "attempts_made (print_all fs' w) = attempts_made w"
  by (induction fs' arbitrary: w) auto

lemma attempts_validate [simp]: "attempts_made (snd (validate_html b w)) = attempts_made w"
  by (auto simp: validate_html_def Let_def split: sum.splits)

lemma attempts_kill_loop [simp]: "attempts_made (snd (kill_loop env ps k w)) = attempts_made w"
proof (induction ps arbitrary: k w)
  case Nil
  then show ?case by simp
next
  case (Cons a ps)
  obtain pid name where a: "a = (pid, name)" by (cases a)
  show ?case
  proof (cases name)
    case None
    with a show ?thesis by simp
  next
    case (Some n)
    let ?w0 = "print (''Killing Publisher process '' @ str_nat pid @ ''...'') w"
    obtain r w1 where c: "com (kill_call pid) (proc_kill env pid) ?w0 = (r, w1)"
      by (cases "com (kill_call pid) (proc_kill env pid) ?w0")
    have "w1 = snd (com (kill_call pid) (proc_kill env pid) ?w0)"
      unfolding c by simp
    then have w1: "attempts_made w1 = attempts_made w"
      by simp
    show ?thesis using a Some c w1 Cons.IH by (cases r) auto
  qed
qed

lemma attempts_kill [simp]:
  "attempts_made (snd (kill_publisher_processes env w)) = attempts_made w"
proof -
  obtain procs a1 where p: "process_iter env (app w) = (procs, a1)"
    by (cases "process_iter env (app w)")
  obtain r w1 where k: "kill_loop env procs False (w\<lparr>app := a1\<rparr>) = (r, w1)"
    by (cases "kill_loop env procs False (w\<lparr>app := a1\<rparr>)")
  have "w1 = snd (kill_loop env procs False (w\<lparr>app := a1\<rparr>))"
    unfolding k by simp
  then have w1: "attempts_made w1 = attempts_made w"
    by simp
  show ?thesis using p k w1
    by (auto simp: kill_publisher_processes_def split: prod.splits sum.splits bool.splits)
qed


lemma attempts_comD: "com c f w = (r, w1) \<Longrightarrow> attempts_made w1 = attempts_made w"
  using attempts_com[of c f w] by simp

lemma attempts_com_SaveAsD:
  "com_SaveAs env p f w = (r, w1) \<Longrightarrow> attempts_made w1 = attempts_made w"
  using attempts_com_SaveAs[of env p f w] by simp

lemma attempts_validateD:
  "validate_html b w = (r, w1) \<Longrightarrow> attempts_made w1 = attempts_made w"
  using attempts_validate[of b w] by simp

lemma attempts_killD:
  "kill_publisher_processes env w = (r, w1) \<Longrightarrow> attempts_made w1 = attempts_made w"
  using attempts_kill[of env w] by simp

lemma attempts_try_block:
  "try_block env p b f m k w = (r, pf, df, w') \<Longrightarrow> attempts_made w' = attempts_made w"
  unfolding try_block_def Let_def
  by (auto split: prod.splits sum.splits if_splits
      dest!: attempts_comD attempts_com_SaveAsD attempts_validateD attempts_killD)

lemma attempts_cleanup:
  "cleanup env d p w = (r, w') \<Longrightarrow> attempts_made w' = attempts_made w"
  unfolding cleanup_def
  by (auto split: prod.splits sum.splits if_splits dest!: attempts_comD)

lemma attempts_cleanup_snd: "attempts_made (snd (cleanup env d p w)) = attempts_made w"
  using attempts_cleanup[of env d p w "fst (cleanup env d p w)" "snd (cleanup env d p w)"]
  by simp

lemma attempts_except_block:
  "except_block env k e d p w = (r, w') \<Longrightarrow> attempts_made w' = attempts_made w"
  unfolding except_block_def Let_def
  by (auto simp: attempts_cleanup_snd split: excepinfo_attr.splits)

lemma attempts_finally_block:
  "attempts_made (finally_block env d p w) = attempts_made w + 1"
  unfolding finally_block_def
  by (auto split: prod.splits sum.splits dest!: attempts_cleanup)

lemma attempts_run_attempt:
  "run_attempt env p b f m k w = (r, w') \<Longrightarrow> attempts_made w' = attempts_made w + 1"
  unfolding run_attempt_def
  by (auto simp: attempts_finally_block split: prod.splits sum.splits bool.splits
      dest!: attempts_try_block attempts_except_block)

section \<open>The retry loop\<close>

lemma check_output_exists_total: "\<exists>v. check_output_exists t b = Inr v"
  using listdir_isdir[of t "b @ ''_files''"]
  by (auto simp: check_output_exists_def Let_def split: sum.splits)

lemma retry_decision_transient:
  "carries_error_code e (- 2147221457) \<Longrightarrow> retry_decision e = Inr True"
  by (auto simp: carries_error_code_def retry_decision_def Let_def
      split: excepinfo_attr.splits info.splits)

lemma retry_decision_other:
  "\<not> carries_error_code e (- 2147221457) \<Longrightarrow> retry_decision e = Inr False \<or> retry_decision e = Inl none_len"
  by (auto simp: carries_error_code_def retry_decision_def Let_def
      split: excepinfo_attr.splits info.splits)

lemma run_attempt_transient:
  assumes "try_block env p b f m k w = (Inl e, pf, df, w1)"
    and "carries_error_code e (- 2147221457)"
  shows "\<exists>w'. run_attempt env p b f m k w = (Retry e, w')"
  using assms retry_decision_transient[OF assms(2)]
  by (simp add: run_attempt_def except_block_def Let_def)

lemma run_attempt_other:
  assumes "try_block env p b f m k w = (Inl e, pf, df, w1)"
    and "\<not> carries_error_code e (- 2147221457)"
  shows "\<exists>w'. run_attempt env p b f m k w = (Break e, w') \<or> run_attempt env p b f m k w = (Raised none_len, w')"
  using assms retry_decision_other[OF assms(2)]
  by (auto simp: run_attempt_def except_block_def Let_def)

lemma attempt_loop_all_transient:
  assumes "\<forall>k w. \<exists>pf df w1. try_block env p b f m k w = (Inl (fault k), pf, df, w1)"
    and "\<forall>k. carries_error_code (fault k) (- 2147221457)"
  shows "\<exists>w'. attempt_loop env p b f m ks lerr w
               = (Inl (failed_after m (if ks = [] then lerr else Some (fault (last ks)))), w')
             \<and> attempts_made w' = attempts_made w + length ks"
proof (induction ks arbitrary: lerr w)
  case Nil
  then show ?case by simp
next
  case (Cons k ks)
  from assms(1) obtain pf df w1 where t: "try_block env p b f m k w = (Inl (fault k), pf, df, w1)"
    by blast
  from run_attempt_transient[OF t] assms(2)
  obtain w2 where r: "run_attempt env p b f m k w = (Retry (fault k), w2)" by blast
  have a: "attempts_made w2 = attempts_made w + 1" by (rule attempts_run_attempt[OF r])
  from Cons.IH[of "Some (fault k)" w2] obtain w' where
    l: "attempt_loop env p b f m ks (Some (fault k)) w2
          = (Inl (failed_after m (if ks = [] then Some (fault k) else Some (fault (last ks)))), w')"
    and c: "attempts_made w' = attempts_made w2 + length ks" by blast
  show ?case using r l c a by auto
qed

lemma attempt_loop_first_other:
  assumes "try_block env p b f m k w = (Inl e, pf, df, w1)"
    and "\<not> carries_error_code e (- 2147221457)"
  shows "\<exists>x w'. attempt_loop env p b f m (k # ks) lerr w = (Inl x, w')
             \<and> (x = failed_after m (Some e) \<or> x = none_len)
             \<and> attempts_made w' = attempts_made w + 1"
proof -
  from run_attempt_other[OF assms] obtain w' where
    r: "run_attempt env p b f m k w = (Break e, w') \<or> run_attempt env p b f m k w = (Raised none_len, w')"
    by blast
  then have a: "attempts_made w' = attempts_made w + 1"
    using attempts_run_attempt by blast
  from r a show ?thesis by auto
qed

text \<open>When the preconditions hold and the output is not there yet, the loop is entered.\<close>

lemma convert_reaches_loop:
  assumes "os_path_exists (fs w) (resolve env pub_path)"
    and "endswith (lower (resolve env pub_path)) ''.pub''"
    and "os_makedirs (fs w) (resolve env output_dir) = Inr t"
    and "\<not> already_converted t
             (os_path_join (resolve env output_dir) (splitext_root (basename (resolve env pub_path))))"
  shows "\<exists>w3. convert_pub_to_html env pub_path output_dir f m w
           = attempt_loop env (resolve env pub_path)
               (os_path_join (resolve env output_dir) (splitext_root (basename (resolve env pub_path))))
               f m [0..<nat m] None w3
         \<and> attempts_made w3 = attempts_made w \<and> fs w3 = t \<and> automation w3 = automation w"
  using assms check_output_exists_total[of t "os_path_join (resolve env output_dir) (splitext_root (basename (resolve env pub_path)))"]
  by (auto simp: convert_pub_to_html_def Let_def makedirs_def already_converted_def print_def
      attempts_made_def split: sum.splits)


lemma try_block_env_modal:
  "\<exists>publisher doc w1. try_block env_modal p b f m k w0 = (Inl modal_error, publisher, doc, w1)"
  by (auto simp: try_block_def env_modal_def env_ok_def kill_publisher_processes_def com_def)

lemma try_block_env_other:
  "\<exists>publisher doc w1. try_block env_other p b f m 0 w0 = (Inl other_error, publisher, doc, w1)"
  by (auto simp: try_block_def env_other_def env_ok_def com_def)



section \<open>The preconditions\<close>

text \<open>
  C7, amended. The extension is read on the resolved path, the one that \<open>Path.resolve\<close>
  returns with the symbolic links followed. When that path does not end in \<open>.pub\<close>
  (whatever the case of the letters), \<open>convert_pub_to_html\<close> raises
  \<open>FileNotFoundError\<close>, or \<open>ValueError\<close> when the path exists, and no call reaches the
  application: the trace of calls, the application, the filesystem and the directory
  calls are as they were.
\<close>

theorem missing_extension_fails_before_automation:
  assumes "\<not> endswith (lower (resolve env pub_path)) ''.pub''"
  shows "\<exists>e w'. convert_pub_to_html env pub_path output_dir format_constant max_retries w = (Inl e, w')
           \<and> (exn_kind e = FileNotFoundError \<or> exn_kind e = ValueError)
           \<and> (os_path_exists (fs w) (resolve env pub_path)
                \<longrightarrow> e = raise_exn ValueError ''File must have .pub extension'')
           \<and> automation w' = automation w \<and> app w' = app w
           \<and> fs w' = fs w \<and> oslog w' = oslog w"
  using assms
  by (auto simp: convert_pub_to_html_def Let_def print_def raise_exn_def)

theorem missing_extension_fails_before_automation_witness:
  "os_path_exists (fs (world_of fs_doc_only)) (resolve env_ok ''/in/a.doc'')
   \<and> \<not> endswith (lower (resolve env_ok ''/in/a.doc'')) ''.pub''
   \<and> (\<exists>w'. convert_pub_to_html env_ok ''/in/a.doc'' ''/out'' 7 3 (world_of fs_doc_only)
              = (Inl (raise_exn ValueError ''File must have .pub extension''), w')
           \<and> automation w' = [] \<and> fs w' = fs_doc_only \<and> oslog w' = [])"
proof -
  have x: "os_path_exists (fs (world_of fs_doc_only)) (resolve env_ok ''/in/a.doc'')"
    by (simp add: eval_defs)
  have a: "\<not> endswith (lower (resolve env_ok ''/in/a.doc'')) ''.pub''"
    by (simp add: env_ok_def endswith_def lower_def lower_char_def)
  from missing_extension_fails_before_automation[where env = env_ok and pub_path = "''/in/a.doc''"
      and output_dir = "''/out''" and format_constant = 7 and max_retries = 3
      and w = "world_of fs_doc_only"] a x
  show ?thesis by (auto simp: world_of_def)
qed

text \<open>
  The claim C7 as it is written fails: a source path without the extension that resolves
  to a \<open>.pub\<close> file passes the test, and the application is started, opens the
  document and saves it.
\<close>

theorem link_without_extension_is_converted:
  "\<not> endswith (lower ''/in/link'') ''.pub''
   \<and> fst (convert_pub_to_html env_link ''/in/link'' ''/out'' 7 3 (world_of fs_source_only))
       = Inr (''/out'' @ CHR 0x5C # ''a.htm'')
   \<and> automation (snd (convert_pub_to_html env_link ''/in/link'' ''/out'' 7 3
                         (world_of fs_source_only)))
       = [EnsureDispatch_call, AutomationSecurity_call 3, Open_call ''/in/a.pub'',
          SaveAs_call (''/out'' @ CHR 0x5C # ''a'') 7, Close_call, Quit_call]"
  by (simp add: eval_defs)


text \<open>
  C10. The existence of the resolved source path is checked first: when it does not
  exist, \<open>convert_pub_to_html\<close> raises \<open>FileNotFoundError\<close>, with or without the
  extension; and whenever it raises a \<open>ValueError\<close>, the path exists.
\<close>

theorem existence_checked_before_extension:
  "(\<not> os_path_exists (fs w) (resolve env pub_path) \<longrightarrow>
      fst (convert_pub_to_html env pub_path output_dir format_constant max_retries w)
        = Inl (raise_exn FileNotFoundError (''Publisher file not found: '' @ resolve env pub_path)))
   \<and> (\<forall>e. fst (convert_pub_to_html env pub_path output_dir format_constant max_retries w) = Inl e
            \<and> exn_kind e = ValueError
          \<longrightarrow> os_path_exists (fs w) (resolve env pub_path))"
proof (intro conjI allI impI)
  assume "\<not> os_path_exists (fs w) (resolve env pub_path)"
  then show "fst (convert_pub_to_html env pub_path output_dir format_constant max_retries w)
        = Inl (raise_exn FileNotFoundError (''Publisher file not found: '' @ resolve env pub_path))"
    by (simp add: convert_pub_to_html_def Let_def print_def)
next
  fix e
  assume a: "fst (convert_pub_to_html env pub_path output_dir format_constant max_retries w) = Inl e
            \<and> exn_kind e = ValueError"
  show "os_path_exists (fs w) (resolve env pub_path)"
  proof (rule ccontr)
    assume "\<not> os_path_exists (fs w) (resolve env pub_path)"
    then have "fst (convert_pub_to_html env pub_path output_dir format_constant max_retries w)
        = Inl (raise_exn FileNotFoundError (''Publisher file not found: '' @ resolve env pub_path))"
      by (simp add: convert_pub_to_html_def Let_def print_def)
    with a show False by (auto simp: raise_exn_def)
  qed
qed

theorem existence_checked_before_extension_witness:
  "\<not> os_path_exists (fs (world_of fs_source_only)) (resolve env_ok ''/in/missing.doc'')
   \<and> \<not> endswith (lower (resolve env_ok ''/in/missing.doc'')) ''.pub''
   \<and> fst (convert_pub_to_html env_ok ''/in/missing.doc'' ''/out'' 7 3 (world_of fs_source_only))
       = Inl (raise_exn FileNotFoundError (''Publisher file not found: '' @ ''/in/missing.doc''))"
proof -
  have a: "\<not> os_path_exists (fs (world_of fs_source_only)) (resolve env_ok ''/in/missing.doc'')"
    by (simp add: env_ok_def world_of_def fs_source_only_def os_path_exists_def components_def
        is_sep_def)
  have b: "\<not> endswith (lower (resolve env_ok ''/in/missing.doc'')) ''.pub''"
    by (simp add: env_ok_def endswith_def lower_def lower_char_def)
  have r: "resolve env_ok ''/in/missing.doc'' = ''/in/missing.doc''"
    by (simp add: env_ok_def)
  from existence_checked_before_extension[of "world_of fs_source_only" env_ok "''/in/missing.doc''"
      "''/out''" 7 3] a b r
  show ?thesis by simp
qed

section \<open>Idempotence\<close>

lemma split_path_nosep:
  "\<forall>c \<in> set x. \<not> is_sep c \<Longrightarrow> split_path cur x = (if cur @ x = [] then [] else [cur @ x])"
  by (induction x arbitrary: cur) auto

lemma split_path_snoc_sep:
  "is_sep c \<Longrightarrow> split_path cur (d @ [c]) = split_path cur d"
  by (induction d arbitrary: cur) auto

lemma split_path_append_sep:
  "is_sep c \<Longrightarrow> \<forall>c \<in> set x. \<not> is_sep c \<Longrightarrow> x \<noteq> []
   \<Longrightarrow> split_path cur (d @ c # x) = split_path cur d @ [x]"
  by (induction d arbitrary: cur) (auto simp: split_path_nosep)

lemma is_sep_backslash: "is_sep (CHR 0x5C)"
  by (simp add: is_sep_def)

lemma components_join_name:
  assumes "\<forall>c \<in> set n. \<not> is_sep c" and "n \<noteq> []"
  shows "components (os_path_join d n) = components d @ [n]"
proof (cases "d = [] \<or> is_sep (last d)")
  case False
  then show ?thesis
    using split_path_append_sep[OF is_sep_backslash assms, of "[]" d]
    by (simp add: os_path_join_def components_def)
next
  case True
  show ?thesis
  proof (cases "d = []")
    case True
    then show ?thesis using assms by (simp add: os_path_join_def components_def split_path_nosep)
  next
    case False
    with True have s: "is_sep (last d)" by simp
    from False have d: "d = butlast d @ [last d]" by simp
    have "components (d @ n) = split_path [] (butlast d @ last d # n)"
      using d by (metis append.assoc append_Cons append_Nil components_def)
    also have "\<dots> = split_path [] (butlast d) @ [n]"
      by (rule split_path_append_sep[OF s assms])
    also have "split_path [] (butlast d) = components d"
      using split_path_snoc_sep[OF s, of "[]" "butlast d"] d by (simp add: components_def)
    finally show ?thesis using True by (simp add: os_path_join_def)
  qed
qed

lemma os_path_join_append: "os_path_join d n @ x = os_path_join d (n @ x)"
  by (simp add: os_path_join_def)

lemma lookup_snoc_parent:
  "lookup t (cs @ [n]) \<noteq> None \<Longrightarrow> \<exists>es. lookup t cs = Some (Dir es)"
proof (induction cs arbitrary: t)
  case Nil
  then show ?case by (cases t) auto
next
  case (Cons c cs)
  then show ?case by (cases t) (auto split: option.splits)
qed

lemma update_entry_same: "map_of es c = Some n \<Longrightarrow> update_entry c n es = es"
  by (induction es) (auto split: if_splits)

lemma mkdirs_existing: "lookup t cs = Some (Dir es) \<Longrightarrow> mkdirs t cs = Some t"
proof (induction cs arbitrary: t)
  case Nil
  then show ?case by simp
next
  case (Cons c cs)
  then show ?case by (cases t) (auto split: option.splits simp: update_entry_same)
qed

lemma basename_no_sep: "\<forall>c \<in> set (basename p). \<not> is_sep c"
  using set_takeWhileD[of _ "\<lambda>c. \<not> is_sep c" "rev p"] by (auto simp: basename_def)

lemma splitext_root_subset: "set (splitext_root name) \<subseteq> set name"
  by (auto simp: splitext_root_def Let_def dest: in_set_takeD)

lemma is_sep_htm: "\<forall>c \<in> set ''.htm''. \<not> is_sep c"
  by (simp add: is_sep_def)

lemma exists_output_parent_isdir:
  assumes "os_path_exists t (os_path_join d (splitext_root (basename p)) @ ''.htm'')"
  shows "os_makedirs t d = Inr t"
proof -
  let ?n = "splitext_root (basename p) @ ''.htm''"
  have ns: "\<forall>c \<in> set ?n. \<not> is_sep c"
    using basename_no_sep[of p] splitext_root_subset[of "basename p"] is_sep_htm by auto
  have "components (os_path_join d ?n) = components d @ [?n]"
    by (rule components_join_name[OF ns]) simp
  with assms have "lookup t (components d @ [?n]) \<noteq> None"
    by (simp add: os_path_exists_def os_path_join_append)
  then obtain es where "lookup t (components d) = Some (Dir es)"
    using lookup_snoc_parent by blast
  then show ?thesis by (simp add: os_makedirs_def mkdirs_existing)
qed

lemma already_converted_exists:
  "already_converted t b \<Longrightarrow> os_path_exists t (b @ ''.htm'')"
  by (auto simp: already_converted_def check_output_exists_def Let_def split: sum.splits if_splits)

lemma convert_short_circuit:
  assumes "os_path_exists (fs w) (resolve env pub_path)"
    and "endswith (lower (resolve env pub_path)) ''.pub''"
    and "already_converted (fs w)
           (os_path_join (resolve env output_dir) (splitext_root (basename (resolve env pub_path))))"
  shows "\<exists>w'. convert_pub_to_html env pub_path output_dir f m w
           = (Inr (os_path_join (resolve env output_dir) (splitext_root (basename (resolve env pub_path)))
                     @ ''.htm''), w')
          \<and> automation w' = automation w \<and> app w' = app w \<and> fs w' = fs w"
proof -
  let ?b = "os_path_join (resolve env output_dir) (splitext_root (basename (resolve env pub_path)))"
  have mk: "os_makedirs (fs w) (resolve env output_dir) = Inr (fs w)"
    by (rule exists_output_parent_isdir[OF already_converted_exists[OF assms(3)]])
  from assms(3) obtain v where v: "check_output_exists (fs w) ?b = Inr v" "truthy v"
    by (auto simp: already_converted_def split: sum.splits)
  show ?thesis using assms(1,2) mk v
    by (simp add: convert_pub_to_html_def Let_def makedirs_def print_def)
qed

lemma validate_html_ok:
  "validate_html b w = (Inr u, w') \<Longrightarrow> already_converted (fs w') b \<and> fs w' = fs w"
  by (auto simp: validate_html_def already_converted_def check_output_exists_def Let_def print_def
      split: sum.splits if_splits)

lemma fs_com: "com c f w = (r, w') \<Longrightarrow> fs w' = fs w"
  by (auto simp: com_def split: prod.splits)

lemma fs_cleanup: "cleanup env d p w = (r, w') \<Longrightarrow> fs w' = fs w"
  unfolding cleanup_def
  by (auto split: prod.splits sum.splits if_splits dest!: fs_com)

lemma fs_print [simp]: "fs (print s w) = fs w"
  by (simp add: print_def)

lemma fs_print_err [simp]: "fs (print_err s w) = fs w"
  by (simp add: print_err_def)

lemma fs_finally_block: "fs (finally_block env d p w) = fs w"
  unfolding finally_block_def
  by (auto split: prod.splits sum.splits dest!: fs_cleanup)

lemma try_block_returns:
  "try_block env p b f m k w = (Inr path, pf, df, w')
   \<Longrightarrow> path = b @ ''.htm'' \<and> already_converted (fs w') b"
  unfolding try_block_def Let_def
  by (auto split: prod.splits sum.splits if_splits dest!: validate_html_ok)

lemma run_attempt_returns:
  "run_attempt env p b f m k w = (Returned path, w')
   \<Longrightarrow> path = b @ ''.htm'' \<and> already_converted (fs w') b"
  unfolding run_attempt_def
  by (auto simp: fs_finally_block split: prod.splits sum.splits bool.splits dest!: try_block_returns)

lemma attempt_loop_returns:
  "attempt_loop env p b f m ks lerr w = (Inr path, w')
   \<Longrightarrow> path = b @ ''.htm'' \<and> already_converted (fs w') b"
proof (induction ks arbitrary: lerr w)
  case Nil
  then show ?case by simp
next
  case (Cons k ks)
  obtain r w1 where r: "run_attempt env p b f m k w = (r, w1)"
    by (cases "run_attempt env p b f m k w")
  show ?case
  proof (cases r)
    case (Returned x)
    with Cons.prems r run_attempt_returns[of env p b f m k w x w1] show ?thesis by simp
  next
    case (Retry x)
    with Cons.prems r Cons.IH show ?thesis by simp
  next
    case (Break x)
    with Cons.prems r show ?thesis by simp
  next
    case (Raised x)
    with Cons.prems r show ?thesis by simp
  qed
qed

lemma convert_returns:
  assumes "convert_pub_to_html env pub_path output_dir f m w = (Inr r, w1)"
  shows "r = os_path_join (resolve env output_dir) (splitext_root (basename (resolve env pub_path))) @ ''.htm''
         \<and> already_converted (fs w1)
              (os_path_join (resolve env output_dir) (splitext_root (basename (resolve env pub_path))))
         \<and> endswith (lower (resolve env pub_path)) ''.pub''"
  using assms
  unfolding convert_pub_to_html_def Let_def
  by (auto simp: already_converted_def split: if_splits prod.splits sum.splits
      dest!: attempt_loop_returns)

text \<open>
  C2. When the source exists, has the extension, and the output check succeeds at entry,
  \<open>convert_pub_to_html\<close> returns \<open>output_base + '.htm'\<close> and calls neither the
  application nor changes the filesystem. When a call has returned a path and the source
  is still there, a second call returns the same path and adds no call to the
  application: the automation work is done at most once.
\<close>

theorem conversion_idempotent:
  fixes env :: "'a env"
  defines "output_base \<equiv> \<lambda>pub_path output_dir.
     os_path_join (resolve env output_dir) (splitext_root (basename (resolve env pub_path)))"
  shows
    "(os_path_exists (fs w) (resolve env pub_path)
        \<and> endswith (lower (resolve env pub_path)) ''.pub''
        \<and> already_converted (fs w) (output_base pub_path output_dir)
      \<longrightarrow> (\<exists>w'. convert_pub_to_html env pub_path output_dir format_constant max_retries w
                   = (Inr (output_base pub_path output_dir @ ''.htm''), w')
                 \<and> automation w' = automation w \<and> app w' = app w \<and> fs w' = fs w))
     \<and> (\<forall>r w1. convert_pub_to_html env pub_path output_dir format_constant max_retries w = (Inr r, w1)
                 \<and> os_path_exists (fs w1) (resolve env pub_path)
          \<longrightarrow> (\<exists>w2. convert_pub_to_html env pub_path output_dir format_constant max_retries w1
                       = (Inr r, w2)
                     \<and> automation w2 = automation w1 \<and> app w2 = app w1 \<and> fs w2 = fs w1))"
proof (intro conjI allI impI)
  assume "os_path_exists (fs w) (resolve env pub_path)
        \<and> endswith (lower (resolve env pub_path)) ''.pub''
        \<and> already_converted (fs w) (output_base pub_path output_dir)"
  then show "\<exists>w'. convert_pub_to_html env pub_path output_dir format_constant max_retries w
                   = (Inr (output_base pub_path output_dir @ ''.htm''), w')
                 \<and> automation w' = automation w \<and> app w' = app w \<and> fs w' = fs w"
    using convert_short_circuit[of w env pub_path output_dir format_constant max_retries]
    by (simp add: output_base_def)
next
  fix r w1
  assume a: "convert_pub_to_html env pub_path output_dir format_constant max_retries w = (Inr r, w1)
                 \<and> os_path_exists (fs w1) (resolve env pub_path)"
  from convert_returns[of env pub_path output_dir format_constant max_retries w r w1] a
  have r: "r = output_base pub_path output_dir @ ''.htm''"
    and c: "already_converted (fs w1) (output_base pub_path output_dir)"
    and e: "endswith (lower (resolve env pub_path)) ''.pub''"
    by (simp_all add: output_base_def)
  from a have x: "os_path_exists (fs w1) (resolve env pub_path)" by simp
  show "\<exists>w2. convert_pub_to_html env pub_path output_dir format_constant max_retries w1 = (Inr r, w2)
                     \<and> automation w2 = automation w1 \<and> app w2 = app w1 \<and> fs w2 = fs w1"
    using convert_short_circuit[OF x e, of output_dir format_constant max_retries] c r
    by (simp add: output_base_def)
qed

theorem conversion_idempotent_witness:
  "\<exists>w1 w2. convert_pub_to_html env_ok ''/in/a.pub'' ''/out'' 7 3 (world_of fs_converted)
              = (Inr (''/out'' @ CHR 0x5C # ''a.htm''), w1)
           \<and> convert_pub_to_html env_ok ''/in/a.pub'' ''/out'' 7 3 w1
              = (Inr (''/out'' @ CHR 0x5C # ''a.htm''), w2)
           \<and> automation w2 = [] \<and> fs w2 = fs_converted"
proof -
  let ?w = "world_of fs_converted"
  have r: "resolve env_ok = (\<lambda>p. p)" by (simp add: env_ok_def)
  have b: "os_path_join ''/out'' (splitext_root (basename ''/in/a.pub'')) = ''/out'' @ CHR 0x5C # ''a''"
    by (simp add: os_path_join_def splitext_root_def basename_def is_sep_def)
  have ex: "os_path_exists (fs ?w) ''/in/a.pub''"
    by (simp add: world_of_def fs_converted_def os_path_exists_def components_def is_sep_def)
  have ext: "endswith (lower ''/in/a.pub'') ''.pub''"
    by (simp add: endswith_def lower_def lower_char_def)
  have ac: "already_converted (fs ?w) (''/out'' @ CHR 0x5C # ''a'')"
    by (simp add: world_of_def fs_converted_def already_converted_def check_output_exists_def
        os_path_exists_def os_path_isdir_def os_listdir_def components_def is_sep_def)
  note t = conversion_idempotent[where env = env_ok and w = ?w and pub_path = "''/in/a.pub''"
      and output_dir = "''/out''" and format_constant = 7 and max_retries = 3, unfolded r b]
  from t ex ext ac obtain w1 where
    c1: "convert_pub_to_html env_ok ''/in/a.pub'' ''/out'' 7 3 ?w
           = (Inr ((''/out'' @ CHR 0x5C # ''a'') @ ''.htm''), w1)"
    and a1: "automation w1 = automation ?w" and f1: "fs w1 = fs ?w" by blast
  from t c1 f1 ex obtain w2 where
    c2: "convert_pub_to_html env_ok ''/in/a.pub'' ''/out'' 7 3 w1
           = (Inr ((''/out'' @ CHR 0x5C # ''a'') @ ''.htm''), w2)"
    and a2: "automation w2 = automation w1" and f2: "fs w2 = fs w1" by auto
  have "automation ?w = []" "fs ?w = fs_converted" by (simp_all add: world_of_def)
  with c1 c2 a1 a2 f1 f2 show ?thesis by auto
qed

section \<open>The release of the handles\<close>

text \<open>
  C8. A run in which \<open>Open\<close> and \<open>SaveAs\<close> succeed, the output is valid, and
  \<open>doc.Close()\<close> raises: the path is returned and the failure of the cleanup is
  printed, so the error of the release is swallowed; but \<open>publisher.Quit()\<close> is never
  called, because both statements stand in one \<open>try\<close>. The application handle that
  was acquired is not released on this exit path.
\<close>

theorem close_failure_skips_quit:
  "fst (convert_pub_to_html env_close_fails ''/in/a.pub'' ''/out'' 7 3 (world_of fs_source_only))
     = Inr (''/out'' @ CHR 0x5C # ''a.htm'')
   \<and> automation (snd (convert_pub_to_html env_close_fails ''/in/a.pub'' ''/out'' 7 3
                         (world_of fs_source_only)))
     = [EnsureDispatch_call, AutomationSecurity_call 3, Open_call ''/in/a.pub'',
        SaveAs_call (''/out'' @ CHR 0x5C # ''a'') 7, Close_call]
   \<and> stderr (snd (convert_pub_to_html env_close_fails ''/in/a.pub'' ''/out'' 7 3
                     (world_of fs_source_only)))
     = [''Warning: Cleanup failed: '' @ exn_str close_error]"
  by (simp add: convert_pub_to_html_def env_close_fails_def env_ok_def world_of_def
      fs_source_only_def fs_converted_def close_error_def
      os_path_exists_def os_path_isdir_def os_listdir_def os_makedirs_def components_def is_sep_def
      endswith_def lower_def lower_char_def splitext_root_def basename_def os_path_join_def
      makedirs_def print_def print_err_def check_output_exists_def raise_exn_def
      upt_conv_Cons run_attempt_def try_block_def com_def com_SaveAs_def check_output_files_def
      validate_html_def finally_block_def cleanup_def Let_def)

section \<open>The tree walker\<close>

lemma count_loop_sum: "count_loop ys c = c + yield_pubs ys"
  by (induction ys c rule: count_loop.induct) (auto simp: yield_pubs_def)

lemma yield_pubs_append [simp]: "yield_pubs (xs @ ys) = yield_pubs xs + yield_pubs ys"
  by (simp add: yield_pubs_def)

lemma yield_pubs_Cons [simp]:
  "yield_pubs ((r, d, f) # ys) = length (filter is_pub f) + yield_pubs ys"
  by (simp add: yield_pubs_def)

lemma yield_pubs_Nil [simp]: "yield_pubs [] = 0"
  by (simp add: yield_pubs_def)

lemma walk_entries_count:
  "(\<And>n c topdir. (n, c) \<in> set es \<Longrightarrow> yield_pubs (walk topdir c) = count_tree c)
   \<Longrightarrow> length (filter is_pub (map fst (filter (\<lambda>(n, c). c = File) es)))
           + yield_pubs (concat (map (\<lambda>(n, c). walk (os_path_join topdir n) c) es))
         = sum_list (map (\<lambda>(n, c). case c of File \<Rightarrow> (if is_pub n then 1 else 0)
                                              | Dir ds \<Rightarrow> count_tree c) es)"
proof (induction es)
  case Nil
  then show ?case by simp
next
  case (Cons a es)
  obtain n c where a: "a = (n, c)" by (cases a)
  have ih: "length (filter is_pub (map fst (filter (\<lambda>(n, c). c = File) es)))
           + yield_pubs (concat (map (\<lambda>(n, c). walk (os_path_join topdir n) c) es))
         = sum_list (map (\<lambda>(n, c). case c of File \<Rightarrow> (if is_pub n then 1 else 0)
                                              | Dir ds \<Rightarrow> count_tree c) es)"
  proof (rule Cons.IH)
    fix n' c' topdir'
    assume "(n', c') \<in> set es"
    then have "(n', c') \<in> set (a # es)" by simp
    then show "yield_pubs (walk topdir' c') = count_tree c'" by (rule Cons.prems)
  qed
  have c: "yield_pubs (walk (os_path_join topdir n) c) = count_tree c"
    by (rule Cons.prems[of n]) (simp add: a)
  show ?case
  proof (cases c)
    case File
    with a ih show ?thesis by simp
  next
    case (Dir ds)
    with a ih c show ?thesis by simp
  qed
qed

lemma walk_count: "yield_pubs (walk topdir t) = count_tree t"
proof (induction t arbitrary: topdir)
  case File
  then show ?case by simp
next
  case (Dir es)
  have "\<And>n c topdir. (n, c) \<in> set es \<Longrightarrow> yield_pubs (walk topdir c) = count_tree c"
  proof -
    fix n c topdir
    assume "(n, c) \<in> set es"
    then show "yield_pubs (walk topdir c) = count_tree c"
      using Dir.IH[of "(n, c)" c topdir] by simp
  qed
  from walk_entries_count[OF this, where topdir = topdir] show ?case by simp
qed

lemma count_pub_files_result:
  "count_pub_files env p w = (n, w')
   \<Longrightarrow> n = tree_pub_files (fs w) (resolve env p) \<and> fs w' = fs w \<and> app w' = app w
       \<and> automation w' = automation w \<and> oslog w' = oslog w @ [walk_call (resolve env p)]"
  by (auto simp: count_pub_files_def os_walk_def Let_def print_def count_loop_sum walk_count
      tree_pub_files_def split: option.splits)

text \<open>
  C6. When the input path exists and the tree under it holds no file with the extension,
  \<open>convert_directory\<close> returns \<open>(0, 0)\<close>; the tree has been walked once and not a
  second time, no directory has been created (the filesystem is as it was and
  \<open>os.makedirs\<close> was never called), and the application was not called.
\<close>

theorem no_pub_files_no_work:
  assumes "os_path_exists (fs w) (resolve env input_path)"
    and "resolve env (resolve env input_path) = resolve env input_path"
    and "tree_pub_files (fs w) (resolve env input_path) = 0"
  shows "\<exists>w'. convert_directory env input_path output_path w = (Inr (0, 0), w')
           \<and> fs w' = fs w
           \<and> oslog w' = oslog w @ [walk_call (resolve env input_path)]
           \<and> automation w' = automation w \<and> app w' = app w"
proof -
  obtain n w1 where c: "count_pub_files env (resolve env input_path) w = (n, w1)"
    by (cases "count_pub_files env (resolve env input_path) w")
  from count_pub_files_result[OF c] assms(2,3)
  have n: "n = 0" and w1: "fs w1 = fs w" "app w1 = app w" "automation w1 = automation w"
    "oslog w1 = oslog w @ [walk_call (resolve env input_path)]" by simp_all
  show ?thesis using assms(1) c n w1
    by (simp add: convert_directory_def Let_def print_def)
qed

lemma visit_file_result:
  "visit_file env cur out tot st f (c, s) w = (r, w')
   \<Longrightarrow> (case r of
          Inr cs \<Rightarrow> cs = (if already_converted (fs w) (path_div env out (stem env f))
                         then (c, s + 1) else (c + 1, s))
        | Inl e \<Rightarrow> raised_outside_try env inp outp ys e)"
  by (auto simp: already_converted_def raised_outside_try_def Let_def
      split: prod.splits sum.splits if_splits)

lemma file_loop_counts:
  "walk_outcome env inp outp ys (c, s) (file_checks env cur out tot st fls (c, s) w) (length fls)
     (file_loop env cur out tot st fls (c, s) w)"
proof (induction fls arbitrary: c s w)
  case Nil
  then show ?case by (simp add: walk_outcome_def)
next
  case (Cons f fls)
  let ?b = "already_converted (fs w) (path_div env out (stem env f))"
  obtain r w1 where v: "visit_file env cur out tot st f (c, s) w = (r, w1)"
    by (cases "visit_file env cur out tot st f (c, s) w")
  note vr = visit_file_result[OF v, of inp outp ys]
  show ?case
  proof (cases r)
    case (Inl e)
    with v vr show ?thesis by (simp add: walk_outcome_def)
  next
    case (Inr cs)
    with vr have cs: "cs = (if ?b then (c, s + 1) else (c + 1, s))" by simp
    show ?thesis
    proof (cases ?b)
      case True
      with cs Inr v Cons.IH[of c "s + 1" w1] show ?thesis
        by (auto simp: walk_outcome_def split: prod.splits sum.splits)
    next
      case False
      with cs Inr v Cons.IH[of "c + 1" s w1] show ?thesis
        by (auto simp: walk_outcome_def split: prod.splits sum.splits)
    qed
  qed
qed

lemma raised_outside_try_mono:
  "set ys' \<subseteq> set ys \<Longrightarrow> raised_outside_try env inp outp ys' e
   \<Longrightarrow> raised_outside_try env inp outp ys e"
  unfolding raised_outside_try_def by blast

lemma dir_loop_counts:
  "set ys' \<subseteq> set ys
   \<Longrightarrow> walk_outcome env inp outp ys (c, s) (dir_checks env inp outp tot st ys' (c, s) w)
         (yield_pubs ys') (dir_loop env inp outp tot st ys' (c, s) w)"
proof (induction ys' arbitrary: c s w)
  case Nil
  then show ?case by (simp add: walk_outcome_def)
next
  case (Cons y ys')
  obtain root_dir dirs fls where y: "y = (root_dir, dirs, fls)" by (cases y)
  from Cons.prems y have mem: "(root_dir, dirs, fls) \<in> set ys" and sub: "set ys' \<subseteq> set ys"
    by auto
  let ?w1 = "print (CHR 0x0A # ''Entering directory: '' @ root_dir) w"
  let ?pubs = "filter is_pub fls"
  let ?out = "path_div env outp (relative_to env root_dir inp)"
  show ?case
  proof (cases "?pubs = []")
    case True
    with y Cons.IH[OF sub, of c s ?w1] show ?thesis by (simp add: walk_outcome_def Let_def)
  next
    case False
    obtain r w2 where m: "makedirs ?out ?w1 = (r, w2)" by (cases "makedirs ?out ?w1")
    show ?thesis
    proof (cases r)
      case (Inl e)
      with m have "os_makedirs (fs ?w1) ?out = Inl e"
        by (auto simp: makedirs_def split: sum.splits)
      with mem False have "raised_outside_try env inp outp ys e"
        unfolding raised_outside_try_def by blast
      with y False m Inl show ?thesis by (simp add: walk_outcome_def Let_def)
    next
      case (Inr u)
      let ?ch = "file_checks env root_dir ?out tot st ?pubs (c, s) w2"
      obtain r3 w3 where f: "file_loop env root_dir ?out tot st ?pubs (c, s) w2 = (r3, w3)"
        by (cases "file_loop env root_dir ?out tot st ?pubs (c, s) w2")
      from file_loop_counts[of env inp outp ys c s root_dir ?out tot st ?pubs w2] f
      have fo: "walk_outcome env inp outp ys (c, s) ?ch (length ?pubs) (r3, w3)" by simp
      show ?thesis
      proof (cases r3)
        case (Inl e)
        with fo y False m Inr f show ?thesis by (simp add: walk_outcome_def Let_def)
      next
        case r3: (Inr cs)
        obtain c1 s1 where cs: "cs = (c1, s1)" by (cases cs)
        from fo r3 cs have c1: "c1 = c + length (filter Not ?ch)"
          and s1: "s1 = s + length (filter id ?ch)" and l: "length ?ch = length ?pubs"
          by (simp_all add: walk_outcome_def)
        from Cons.IH[OF sub, of c1 s1 w3]
        show ?thesis using y False m Inr f r3 cs c1 s1 l
          by (auto simp: walk_outcome_def Let_def split: prod.splits sum.splits)
      qed
    qed
  qed
qed

lemma dir_checks_no_pubs:
  "yield_pubs ys = 0 \<Longrightarrow> dir_checks env inp outp tot st ys cs w = []"
proof (induction ys arbitrary: cs w)
  case Nil
  then show ?case by simp
next
  case (Cons y ys)
  obtain root_dir dirs fls where y: "y = (root_dir, dirs, fls)" by (cases y)
  with Cons show ?case by (simp add: Let_def)
qed

lemma filter_Not_id_length: "length (filter Not bs) + length (filter id bs) = length bs"
  by (induction bs) auto

lemma os_walk_result:
  "os_walk p w = (ys, w') \<Longrightarrow> yield_pubs ys = tree_pub_files (fs w) p"
  by (auto simp: os_walk_def tree_pub_files_def walk_count split: option.splits)

lemma os_walk_fs: "fs w1 = fs w \<Longrightarrow> fst (os_walk p w1) = fst (os_walk p w)"
  by (simp add: os_walk_def)

lemma read_clock_fs: "read_clock env w = (t, w') \<Longrightarrow> fs w' = fs w"
  by (auto simp: read_clock_def split: prod.splits)



theorem no_pub_files_no_work_witness:
  "os_path_exists (fs (world_of fs_no_pubs)) (resolve env_ok ''/in'')
   \<and> tree_pub_files (fs (world_of fs_no_pubs)) (resolve env_ok ''/in'') = 0
   \<and> (\<exists>w'. convert_directory env_ok ''/in'' ''/out'' (world_of fs_no_pubs) = (Inr (0, 0), w')
           \<and> fs w' = fs_no_pubs \<and> oslog w' = [walk_call ''/in''] \<and> automation w' = [])"
proof -
  have r: "resolve env_ok = (\<lambda>p. p)" by (simp add: env_ok_def)
  have a: "os_path_exists (fs (world_of fs_no_pubs)) (resolve env_ok ''/in'')"
    by (simp add: eval_defs)
  have b: "resolve env_ok (resolve env_ok ''/in'') = resolve env_ok ''/in''"
    by (simp add: env_ok_def)
  have c: "tree_pub_files (fs (world_of fs_no_pubs)) (resolve env_ok ''/in'') = 0"
    by (simp add: eval_defs)
  have d: "fs (world_of fs_no_pubs) = fs_no_pubs" "oslog (world_of fs_no_pubs) = []"
    "automation (world_of fs_no_pubs) = []" by (simp_all add: world_of_def)
  from no_pub_files_no_work[OF a b c, of "''/out''"] a c d show ?thesis
    by (simp add: r)
qed


section \<open>The filter of the format probe\<close>

text \<open>
  C9, amended. The filter of the probe keeps a result unless \<open>test_format_constant\<close>
  caught an exception whose \<open>excepinfo\<close> is \<open>None\<close> (its error text is then exactly
  \<open>COM Error: None\<close>), or one without \<open>excepinfo\<close> whose own text is that literal. A
  result with an error has no files, so these results are discarded; a run without
  exception, and a COM error whose \<open>excepinfo\<close> is a tuple, are always kept.
\<close>

theorem probe_filter_discards_excepinfo_none:
  assumes "probe_try env pr pub_path output_dir format_constant w = (r, publisher, doc, w1)"
  shows "interesting (fst (test_format_constant env pr pub_path output_dir format_constant w))
         \<longleftrightarrow> \<not> (\<exists>e. r = Inl e
                    \<and> (excepinfo e = Attr InfoNone
                       \<or> (excepinfo e = NoAttr \<and> exn_str e = ''COM Error: None'')))"
proof (cases r)
  case (Inr created)
  with assms show ?thesis by (simp add: test_format_constant_def interesting_def)
next
  case (Inl e)
  show ?thesis
  proof (cases "excepinfo e")
    case NoAttr
    with Inl assms show ?thesis by (simp add: test_format_constant_def interesting_def)
  next
    case (Attr i)
    with Inl assms show ?thesis
      by (cases i) (simp_all add: test_format_constant_def interesting_def)
  qed
qed

lemmas probe_eval_defs =
  explore_format_constants_def test_format_constant_def probe_try_def clean_output_dir_def
  interesting_def env_no_publisher_def probe_ok_def class_error_def env_ok_def world_of_def
  fs_converted_def os_listdir_def os_path_isdir_def os_path_isfile_def os_path_join_def
  components_def is_sep_def com_def cleanup_def print_def upto.simps Let_def

text \<open>
  The claim C9 as it is written fails: when \<open>EnsureDispatch\<close> raises a COM error
  without exception information, the error text is the literal of the filter, the
  comparison matches, and the result is discarded.
\<close>

theorem probe_filter_matches_com_error_none:
  "result_error (fst (test_format_constant env_no_publisher probe_ok ''/in/a.pub'' ''/out'' 1
                        (world_of fs_converted))) = Some ''COM Error: None''
   \<and> result_files (fst (test_format_constant env_no_publisher probe_ok ''/in/a.pub'' ''/out'' 1
                        (world_of fs_converted))) = []
   \<and> \<not> interesting (fst (test_format_constant env_no_publisher probe_ok ''/in/a.pub'' ''/out'' 1
                        (world_of fs_converted)))
   \<and> fst (explore_format_constants env_no_publisher probe_ok ''/in/a.pub'' ''/out'' 1 2
             (world_of fs_converted)) = Inr []"
  by (simp add: probe_eval_defs)

theorem probe_filter_discards_excepinfo_none_witness:
  "\<exists>r. fst (probe_try env_no_publisher probe_ok ''/in/a.pub'' ''/out'' 1 (world_of fs_converted)) = r
      \<and> r = Inl class_error \<and> excepinfo class_error = Attr InfoNone
      \<and> \<not> interesting (fst (test_format_constant env_no_publisher probe_ok ''/in/a.pub'' ''/out'' 1
                                (world_of fs_converted)))"
proof -
  let ?w = "world_of fs_converted"
  have "fst (probe_try env_no_publisher probe_ok ''/in/a.pub'' ''/out'' 1 ?w) = Inl class_error"
    by (simp add: probe_eval_defs)
  then obtain publisher doc w1 where
    p: "probe_try env_no_publisher probe_ok ''/in/a.pub'' ''/out'' 1 ?w
          = (Inl class_error, publisher, doc, w1)"
    by (cases "probe_try env_no_publisher probe_ok ''/in/a.pub'' ''/out'' 1 ?w") auto
  have e: "excepinfo class_error = Attr InfoNone" by (simp add: class_error_def)
  from probe_filter_discards_excepinfo_none[OF p] e p show ?thesis by simp
qed

end
